theory Spec2Isabelle
  imports Complex_Main "HOL-Library.Multiset" "HOL-Library.Char_ord" "HOL-Library.List_Lexorder"
begin

section \<open>Numbers as the script sees them\<close>

text \<open>
  The script \<^verbatim>\<open>scripts/generate_eda_excel.py\<close> computes with numpy doubles. The model
  keeps the three special values of a double apart from the finite ones and takes the finite
  ones as exact reals: rounding error of the binary representation and the sign of zero are
  not modelled, not-a-number and the infinities are.
\<close>

datatype npfloat = Fin real | PInf | NInf | NaN

fun np_isnan :: "npfloat \<Rightarrow> bool" where
  "np_isnan NaN = True"
| "np_isnan _ = False"

text \<open>\<^verbatim>\<open>x * 100\<close>\<close>

fun np_times100 :: "npfloat \<Rightarrow> npfloat" where
  "np_times100 (Fin x) = Fin (x * 100)"
| "np_times100 PInf = PInf"
| "np_times100 NInf = NInf"
| "np_times100 NaN = NaN"

text \<open>
  \<^verbatim>\<open>a / b\<close> on numpy doubles: a zero divisor does not raise, it gives an infinity, or
  not-a-number for \<^verbatim>\<open>0 / 0\<close> (the script silences the warning).
\<close>

fun np_div :: "npfloat \<Rightarrow> npfloat \<Rightarrow> npfloat" where
  "np_div NaN _ = NaN"
| "np_div _ NaN = NaN"
| "np_div (Fin a) (Fin b) =
     (if b \<noteq> 0 then Fin (a / b)
      else if a > 0 then PInf else if a < 0 then NInf else NaN)"
| "np_div (Fin a) PInf = Fin 0"
| "np_div (Fin a) NInf = Fin 0"
| "np_div PInf (Fin b) = (if b < 0 then NInf else PInf)"
| "np_div NInf (Fin b) = (if b < 0 then PInf else NInf)"
| "np_div PInf PInf = NaN"
| "np_div PInf NInf = NaN"
| "np_div NInf PInf = NaN"
| "np_div NInf NInf = NaN"

text \<open>\<^verbatim>\<open>x > c\<close> for a finite constant \<^verbatim>\<open>c\<close>: false on not-a-number.\<close>

fun np_gt :: "npfloat \<Rightarrow> real \<Rightarrow> bool" where
  "np_gt (Fin x) c = (x > c)"
| "np_gt PInf c = True"
| "np_gt NInf c = False"
| "np_gt NaN c = False"

text \<open>\<^verbatim>\<open>a < b\<close> on two doubles: false as soon as one side is not-a-number.\<close>

fun np_lt :: "npfloat \<Rightarrow> npfloat \<Rightarrow> bool" where
  "np_lt NaN _ = False"
| "np_lt _ NaN = False"
| "np_lt (Fin a) (Fin b) = (a < b)"
| "np_lt (Fin a) PInf = True"
| "np_lt (Fin a) NInf = False"
| "np_lt PInf _ = False"
| "np_lt NInf NInf = False"
| "np_lt NInf _ = True"

fun np_abs :: "npfloat \<Rightarrow> npfloat" where
  "np_abs (Fin x) = Fin \<bar>x\<bar>"
| "np_abs PInf = PInf"
| "np_abs NInf = PInf"
| "np_abs NaN = NaN"

text \<open>Rounding to the nearest integer, exact halves to the even neighbour (numpy's \<^verbatim>\<open>rint\<close>).\<close>

definition rint :: "real \<Rightarrow> int" where
  "rint x =
     (let f = \<lfloor>x\<rfloor>; d = x - of_int f
      in if d < 1 / 2 then f else if d > 1 / 2 then f + 1 else if even f then f else f + 1)"

text \<open>\<^verbatim>\<open>round(x, p)\<close> and \<^verbatim>\<open>.round(p)\<close>: \<^verbatim>\<open>rint(x * 10**p) / 10**p\<close>.\<close>

definition round_nd :: "nat \<Rightarrow> real \<Rightarrow> real" where
  "round_nd p x = of_int (rint (x * 10 ^ p)) / 10 ^ p"

fun np_round :: "nat \<Rightarrow> npfloat \<Rightarrow> npfloat" where
  "np_round p (Fin x) = Fin (round_nd p x)"
| "np_round p PInf = PInf"
| "np_round p NInf = NInf"
| "np_round p NaN = NaN"

text \<open>\<^verbatim>\<open>int(x)\<close> on a finite double truncates towards zero.\<close>

definition py_int :: "real \<Rightarrow> int" where
  "py_int x = (if x \<ge> 0 then \<lfloor>x\<rfloor> else \<lceil>x\<rceil>)"

section \<open>Formatting\<close>

definition digit_char :: "nat \<Rightarrow> char" where
  "digit_char d = ''0123456789'' ! d"

fun nat_digits :: "nat \<Rightarrow> string" where
  "nat_digits n = (if n < 10 then [digit_char n] else nat_digits (n div 10) @ [digit_char (n mod 10)])"

declare nat_digits.simps [simp del]

definition zero_pad :: "nat \<Rightarrow> string \<Rightarrow> string" where
  "zero_pad w s = replicate (w - length s) (CHR ''0'') @ s"

text \<open>
  \<^verbatim>\<open>f"{x:.pf}"\<close> on a finite value: the decimal expansion with \<^verbatim>\<open>p\<close> digits after the
  point, rounded to nearest with exact halves to even, the sign kept on negative values.
\<close>

definition fmt_fixed :: "nat \<Rightarrow> real \<Rightarrow> string" where
  "fmt_fixed p x =
     (let a = nat \<bar>rint (x * 10 ^ p)\<bar>
      in (if x < 0 then ''-'' else '''') @ nat_digits (a div 10 ^ p) @
         (if p = 0 then '''' else ''.'' @ zero_pad p (nat_digits (a mod 10 ^ p))))"

fun np_fmt :: "nat \<Rightarrow> npfloat \<Rightarrow> string" where
  "np_fmt p (Fin x) = fmt_fixed p x"
| "np_fmt p PInf = ''inf''"
| "np_fmt p NInf = ''-inf''"
| "np_fmt p NaN = ''nan''"

text \<open>
  \<^verbatim>\<open>str(x)\<close> of a double is its shortest decimal form that reads back as the same double.
  The script only prints this way values that \<^verbatim>\<open>.round(2)\<close> has produced, multiples of
  one hundredth: they print with one decimal digit when the second is zero and with two otherwise.
\<close>

definition str_hundredths :: "real \<Rightarrow> string" where
  "str_hundredths x =
     (let a = nat \<bar>rint (x * 100)\<bar>; fp = a mod 100
      in (if x < 0 then ''-'' else '''') @ nat_digits (a div 100) @ ''.'' @
         (if fp mod 10 = 0 then nat_digits (fp div 10) else zero_pad 2 (nat_digits fp)))"

fun np_str :: "npfloat \<Rightarrow> string" where
  "np_str (Fin x) = str_hundredths x"
| "np_str PInf = ''inf''"
| "np_str NInf = ''-inf''"
| "np_str NaN = ''nan''"

section \<open>The data frame\<close>

text \<open>
  A pandas column is a list of nullable values with a dtype. The dtypes the script
  distinguishes are the numeric ones (\<^verbatim>\<open>select_dtypes(include=[np.number])\<close>: the catalog's
  float, int and binary columns) and the others (strings, categories). A frame is the list
  of its named columns, in column order; \<^verbatim>\<open>len(df)\<close> is the common length of the columns.
\<close>

datatype column = NumCol "real option list" | ObjCol "string option list"

type_synonym dataframe = "(string \<times> column) list"

datatype error = KeyError string | TypeError string | ValueError string

fun col_len :: "column \<Rightarrow> nat" where
  "col_len (NumCol vs) = length vs"
| "col_len (ObjCol vs) = length vs"

fun len_df :: "dataframe \<Rightarrow> nat" where
  "len_df [] = 0"
| "len_df ((n, c) # _) = col_len c"

definition wf_df :: "dataframe \<Rightarrow> bool" where
  "wf_df df = (distinct (map fst df) \<and> (\<forall>nc \<in> set df. col_len (snd nc) = len_df df))"

text \<open>\<^verbatim>\<open>df[name]\<close> raises KeyError on a missing column.\<close>

definition get_col :: "dataframe \<Rightarrow> string \<Rightarrow> error + column" where
  "get_col df name = (case map_of df name of None \<Rightarrow> Inl (KeyError name) | Some c \<Rightarrow> Inr c)"

text \<open>
  A column used in arithmetic: a numeric column as it is; an object column whose entries
  are all missing counts as a numeric column of missing values; an object column that holds
  a string makes the reduction raise.
\<close>

fun as_numeric :: "string \<Rightarrow> column \<Rightarrow> error + real option list" where
  "as_numeric name (NumCol vs) = Inr vs"
| "as_numeric name (ObjCol vs) =
     (if \<forall>v \<in> set vs. v = None then Inr (map (\<lambda>_. None) vs) else Inl (TypeError name))"

definition get_num :: "dataframe \<Rightarrow> string \<Rightarrow> error + real option list" where
  "get_num df name = (case get_col df name of Inl e \<Rightarrow> Inl e | Inr c \<Rightarrow> as_numeric name c)"

text \<open>The non-missing values of a column (\<^verbatim>\<open>dropna\<close>, and what every reduction skips).\<close>

definition present :: "'a option list \<Rightarrow> 'a list" where
  "present vs = [x. Some x \<leftarrow> vs]"

definition count_nulls :: "'a option list \<Rightarrow> nat" where
  "count_nulls vs = length (filter (\<lambda>v. v = None) vs)"

fun col_nulls :: "column \<Rightarrow> nat" where
  "col_nulls (NumCol vs) = count_nulls vs"
| "col_nulls (ObjCol vs) = count_nulls vs"

text \<open>\<^verbatim>\<open>Series.sum()\<close> skips missing values; the sum of nothing is 0.\<close>

definition series_sum :: "real option list \<Rightarrow> real" where
  "series_sum vs = sum_list (present vs)"

text \<open>\<^verbatim>\<open>Series.mean()\<close> skips missing values; the mean of nothing is not-a-number.\<close>

definition series_mean :: "real option list \<Rightarrow> npfloat" where
  "series_mean vs =
     (let xs = present vs in if xs = [] then NaN else Fin (sum_list xs / of_nat (length xs)))"

text \<open>\<^verbatim>\<open>df.loc[df[c] == v, "label"]\<close>: the labels of the rows where column \<^verbatim>\<open>c\<close> holds \<^verbatim>\<open>v\<close>.\<close>

definition loc_eq :: "real option list \<Rightarrow> real \<Rightarrow> 'a list \<Rightarrow> 'a list" where
  "loc_eq cs v ls = map snd (filter (\<lambda>p. fst p = Some v) (zip cs ls))"

section \<open>Python's stable sort\<close>

text \<open>
  \<^verbatim>\<open>list.sort(key=k, reverse=True)\<close> compares keys with \<^verbatim>\<open><\<close> only, is stable, and with
  \<^verbatim>\<open>reverse=True\<close> reverses the list before and after an ascending stable sort, so that
  equal keys keep their original order. The ascending sort is modelled as insertion from
  left to right, each element going behind the elements that are not greater. (With a
  not-a-number key the comparisons are no order, and what CPython's merge strategy returns
  then is not fixed by this model.)
\<close>

fun py_insert :: "('a \<Rightarrow> npfloat) \<Rightarrow> 'a \<Rightarrow> 'a list \<Rightarrow> 'a list" where
  "py_insert k x [] = [x]"
| "py_insert k x (y # ys) = (if np_lt (k x) (k y) then x # y # ys else y # py_insert k x ys)"

fun py_sort_into :: "('a \<Rightarrow> npfloat) \<Rightarrow> 'a list \<Rightarrow> 'a list \<Rightarrow> 'a list" where
  "py_sort_into k acc [] = acc"
| "py_sort_into k acc (x # xs) = py_sort_into k (py_insert k x acc) xs"

definition py_sort_reverse :: "('a \<Rightarrow> npfloat) \<Rightarrow> 'a list \<Rightarrow> 'a list" where
  "py_sort_reverse k xs = rev (py_sort_into k [] (rev xs))"


section \<open>Sheet 8: rule features (\<^verbatim>\<open>sheet_rules\<close>)\<close>

text \<open>
  \<^verbatim>\<open>rule_cols = [c for c in df.columns if c.startswith("rule_") and c not in ["rule_trigger_count"]]\<close>
\<close>

definition rule_cols :: "dataframe \<Rightarrow> string list" where
  "rule_cols df =
     filter (\<lambda>c. take 5 c = ''rule_'' \<and> c \<notin> set [''rule_trigger_count'']) (map fst df)"

text \<open>The tuple \<^verbatim>\<open>(c, total_triggered, trigger_rate, f_triggered, f_not_triggered, lift)\<close>.\<close>

record rule_stat =
  rule_name :: string
  total_triggered :: int
  trigger_rate :: npfloat
  f_triggered :: npfloat
  f_not_triggered :: npfloat
  lift :: npfloat

text \<open>The body of the loop over the rule columns, for column \<^verbatim>\<open>c\<close> with values \<^verbatim>\<open>cs\<close> and labels \<^verbatim>\<open>ls\<close>.\<close>

definition rule_stat_of :: "real option list \<Rightarrow> string \<Rightarrow> real option list \<Rightarrow> rule_stat" where
  "rule_stat_of ls c cs =
     (let total = py_int (series_sum cs);
          rate = np_times100 (series_mean cs);
          ft = (if total > 0 then np_times100 (series_mean (loc_eq cs 1 ls)) else Fin 0);
          fn = np_times100 (series_mean (loc_eq cs 0 ls));
          l = (if np_gt fn 0 then np_div ft fn else NaN)
      in \<lparr>rule_name = c, total_triggered = total, trigger_rate = rate,
          f_triggered = ft, f_not_triggered = fn, lift = l\<rparr>)"

fun rule_stats_loop :: "dataframe \<Rightarrow> string list \<Rightarrow> error + rule_stat list" where
  "rule_stats_loop df [] = Inr []"
| "rule_stats_loop df (c # cs) =
     (case get_num df c of Inl e \<Rightarrow> Inl e
      | Inr vs \<Rightarrow>
     (case get_num df ''label'' of Inl e \<Rightarrow> Inl e
      | Inr ls \<Rightarrow>
     (case rule_stats_loop df cs of Inl e \<Rightarrow> Inl e
      | Inr rest \<Rightarrow> Inr (rule_stat_of ls c vs # rest))))"

text \<open>The list \<^verbatim>\<open>rule_stats\<close> as the loop leaves it, in the order of the rule columns.\<close>

definition rule_stats_unsorted :: "dataframe \<Rightarrow> error + rule_stat list" where
  "rule_stats_unsorted df = rule_stats_loop df (rule_cols df)"

text \<open>\<^verbatim>\<open>rule_stats.sort(key=lambda x: x[3], reverse=True)\<close>\<close>

definition sheet_rules_stats :: "dataframe \<Rightarrow> error + rule_stat list" where
  "sheet_rules_stats df =
     (case rule_stats_unsorted df of Inl e \<Rightarrow> Inl e
      | Inr stats \<Rightarrow> Inr (py_sort_reverse f_triggered stats))"

text \<open>
  The signal strength of a row. The script puts a coloured-circle emoji before each word;
  the strings hold its UTF-8 bytes.
\<close>

definition rule_strength :: "npfloat \<Rightarrow> string" where
  "rule_strength ft =
     (if np_gt ft 50 then [CHR 0xF0, CHR 0x9F, CHR 0x94, CHR 0xB4] @ '' Very High''
      else if np_gt ft 30 then [CHR 0xF0, CHR 0x9F, CHR 0x9F, CHR 0xA0] @ '' High''
      else if np_gt ft 15 then [CHR 0xF0, CHR 0x9F, CHR 0x9F, CHR 0xA1] @ '' Medium''
      else [CHR 0xE2, CHR 0x9A, CHR 0xAA] @ '' Low'')"

text \<open>A cell of the sheet: a string, an integer or a number.\<close>

datatype cell = CStr string | CInt int | CNum npfloat

text \<open>\<^verbatim>\<open>f"{lift:.2f}x" if not np.isnan(lift) else "N/A"\<close>\<close>

definition lift_cell :: "npfloat \<Rightarrow> string" where
  "lift_cell l = (if \<not> np_isnan l then np_fmt 2 l @ ''x'' else ''N/A'')"

definition rule_row :: "rule_stat \<Rightarrow> cell list" where
  "rule_row s =
     [CStr (rule_name s), CInt (total_triggered s),
      CStr (np_fmt 2 (trigger_rate s) @ ''%''),
      CStr (np_fmt 1 (f_triggered s) @ ''%''),
      CStr (np_fmt 1 (f_not_triggered s) @ ''%''),
      CStr (lift_cell (lift s)),
      CStr (rule_strength (f_triggered s))]"



section \<open>Sorting and grouping in pandas\<close>

text \<open>
  \<^verbatim>\<open>DataFrame.sort_values(by, ascending=False)\<close> is called without \<^verbatim>\<open>kind\<close>: the default is
  \<^verbatim>\<open>'quicksort'\<close>, which pandas documents as not stable. The result is an arrangement of
  the same rows in which the key never increases; the library does not fix the order of rows
  with equal keys, so the model is a relation between the rows given and the rows returned.
\<close>

definition sort_values_desc :: "('a \<Rightarrow> 'k::linorder) \<Rightarrow> 'a list \<Rightarrow> 'a list \<Rightarrow> bool" where
  "sort_values_desc key xs ys = (mset ys = mset xs \<and> sorted_wrt (\<lambda>a b. key a \<ge> key b) ys)"

text \<open>
  The keys of \<^verbatim>\<open>df.groupby(col, dropna=...)\<close>: the distinct values in ascending order, and
  with \<^verbatim>\<open>dropna=False\<close> the missing value as a last group of its own.
\<close>

definition group_keys :: "bool \<Rightarrow> ('k::linorder) option list \<Rightarrow> 'k option list" where
  "group_keys dropna ks =
     map Some (sort (remdups (present ks))) @ (if \<not> dropna \<and> None \<in> set ks then [None] else [])"

text \<open>
  \<^verbatim>\<open>df.groupby(col)["label"].agg(["count", "sum", "mean"])\<close>: per key, the number of
  non-missing labels of the group, their sum and their mean.
\<close>

definition groupby_label :: "bool \<Rightarrow> ('k::linorder) option list \<Rightarrow> real option list
    \<Rightarrow> ('k option \<times> nat \<times> real \<times> npfloat) list" where
  "groupby_label dropna ks ls =
     map (\<lambda>k. let sel = map snd (filter (\<lambda>p. fst p = k) (zip ks ls))
               in (k, length (present sel), series_sum sel, series_mean sel))
         (group_keys dropna ks)"

text \<open>The key of a group as a cell; the missing key is not-a-number.\<close>

fun str_key :: "string option \<Rightarrow> cell" where
  "str_key (Some s) = CStr s"
| "str_key None = CNum NaN"

fun num_key :: "real option \<Rightarrow> cell" where
  "num_key (Some x) = CNum (Fin x)"
| "num_key None = CNum NaN"

fun groupby_agg :: "bool \<Rightarrow> column \<Rightarrow> real option list \<Rightarrow> (cell \<times> nat \<times> real \<times> npfloat) list" where
  "groupby_agg dropna (ObjCol ks) ls = map (\<lambda>(k, r). (str_key k, r)) (groupby_label dropna ks ls)"
| "groupby_agg dropna (NumCol ks) ls = map (\<lambda>(k, r). (num_key k, r)) (groupby_label dropna ks ls)"

section \<open>Sheet 5: missing values (\<^verbatim>\<open>sheet_missing\<close>)\<close>

text \<open>
  The catalog \<^verbatim>\<open>DATA_DICT\<close> maps a column name to (data type, feature group, definition,
  formula). It is static text; the functions below take it as a parameter.
\<close>

type_synonym data_dict = "string \<rightharpoonup> (string \<times> string \<times> string \<times> string)"

text \<open>\<^verbatim>\<open>DATA_DICT.get(c, ("","","",""))[1]\<close>\<close>

definition dict_group :: "data_dict \<Rightarrow> string \<Rightarrow> string" where
  "dict_group dd c = (case dd c of None \<Rightarrow> '''' | Some (t, g, d, f) \<Rightarrow> g)"

text \<open>\<^verbatim>\<open>str(df[c].dtype)\<close>, up to the width of the numeric type, which the model does not keep.\<close>

fun col_dtype :: "column \<Rightarrow> string" where
  "col_dtype (NumCol vs) = ''number''"
| "col_dtype (ObjCol vs) = ''object''"

record missing_row =
  m_column :: string
  m_null_count :: nat
  m_null_pct :: npfloat
  m_dtype :: string
  m_group :: string

text \<open>
  \<^verbatim>\<open>nulls = df.isnull().sum().reset_index()\<close> with the columns \<^verbatim>\<open>null_pct\<close>, \<^verbatim>\<open>dtype\<close> and
  \<^verbatim>\<open>group\<close> added: one row per column of the frame, in column order.
\<close>

definition nulls_unsorted :: "data_dict \<Rightarrow> dataframe \<Rightarrow> missing_row list" where
  "nulls_unsorted dd df =
     map (\<lambda>(c, col).
            \<lparr>m_column = c, m_null_count = col_nulls col,
             m_null_pct = np_round 2 (np_times100
                            (np_div (Fin (of_nat (col_nulls col))) (Fin (of_nat (len_df df))))),
             m_dtype = col_dtype col, m_group = dict_group dd c\<rparr>) df"

text \<open>\<^verbatim>\<open>nulls = nulls.sort_values("null_count", ascending=False)\<close>\<close>

definition sheet_missing :: "data_dict \<Rightarrow> dataframe \<Rightarrow> missing_row list \<Rightarrow> bool" where
  "sheet_missing dd df rows = sort_values_desc m_null_count (nulls_unsorted dd df) rows"

definition notes_map :: "string \<rightharpoonup> string" where
  "notes_map = map_of
     [(''receiver_account_id'', ''NULL when transfer goes to external beneficiary (~62% of rows). Expected.''),
      (''beneficiary_id'', ''NULL for intra-bank transfers. Expected.''),
      (''beneficiary_type'', ''NULL for intra-bank transfers. Expected.''),
      (''beneficiary_country_risk'', ''NULL for intra-bank transfers. Expected.''),
      (''account_id_x'', ''Internal join artifact from graph feature merge. Not used in modelling.''),
      (''sender_in_degree_30d'', ''Internal join artifact; only 49 rows populated. Not used in modelling.''),
      (''sender_total_inflow_30d'', ''Internal join artifact; only 49 rows populated. Not used in modelling.''),
      (''account_id_y'', ''Internal join artifact from graph feature merge. Not used in modelling.''),
      (''avg_time_gap_in_out'', ''NULL for accounts that have never had a subsequent outflow after an inflow (~4.5% of rows). Can be imputed with median or 0.'')]"

definition missing_cells :: "missing_row \<Rightarrow> cell list" where
  "missing_cells r =
     [CStr (m_column r), CStr (m_dtype r), CInt (int (m_null_count r)),
      CStr (np_str (m_null_pct r) @ ''%''), CStr (m_group r),
      CStr (case notes_map (m_column r) of None \<Rightarrow> '''' | Some n \<Rightarrow> n)]"

text \<open>
  What a stable sort would give: for every null count, the rows with that count are in
  the order of the columns of the frame.
\<close>

definition ties_in_column_order :: "data_dict \<Rightarrow> dataframe \<Rightarrow> missing_row list \<Rightarrow> bool" where
  "ties_in_column_order dd df rows =
     (\<forall>v \<in> set (map m_null_count rows).
        filter (\<lambda>r. m_null_count r = v) rows = filter (\<lambda>r. m_null_count r = v) (nulls_unsorted dd df))"

section \<open>Sheet 7: categorical distributions (\<^verbatim>\<open>sheet_categoricals\<close>)\<close>

definition cat_cols :: "(string \<times> string) list" where
  "cat_cols =
     [(''channel'', ''Channel''),
      (''transaction_type'', ''Transaction Type''),
      (''kyc_level'', ''KYC Level''),
      (''country_risk'', ''Country Risk''),
      (''income_bracket'', ''Income Bracket''),
      (''customer_risk_rating'', ''Customer Risk Rating''),
      (''occupation'', ''Occupation''),
      (''account_type'', ''Account Type''),
      (''os_type'', ''OS Type''),
      (''beneficiary_type'', ''Beneficiary Type''),
      (''beneficiary_country_risk'', ''Beneficiary Country Risk''),
      (''debit_credit'', ''Debit / Credit'')]"

record cat_row =
  c_value :: cell
  c_total :: nat
  c_fraud :: real
  c_fraud_rate :: npfloat
  c_pct_all :: npfloat

text \<open>
  \<^verbatim>\<open>tbl = df.groupby(col, dropna=False)["label"].agg(["count","sum","mean"]).reset_index()\<close>
  with \<^verbatim>\<open>pct_all = (total / len(df) * 100).round(2)\<close>.
\<close>

fun cat_row_of :: "nat \<Rightarrow> cell \<times> nat \<times> real \<times> npfloat \<Rightarrow> cat_row" where
  "cat_row_of len (k, n, s, m) =
     \<lparr>c_value = k, c_total = n, c_fraud = s, c_fraud_rate = m,
      c_pct_all = np_round 2 (np_times100 (np_div (Fin (of_nat n)) (Fin (of_nat len))))\<rparr>"

definition cat_table_unsorted :: "dataframe \<Rightarrow> string \<Rightarrow> error + cat_row list" where
  "cat_table_unsorted df col =
     (case get_col df col of Inl e \<Rightarrow> Inl e
      | Inr c \<Rightarrow>
     (case get_num df ''label'' of Inl e \<Rightarrow> Inl e
      | Inr ls \<Rightarrow> Inr (map (cat_row_of (len_df df)) (groupby_agg False c ls))))"

text \<open>\<^verbatim>\<open>tbl = tbl.sort_values("total", ascending=False)\<close>: the table of one column.\<close>

definition categorical_table :: "dataframe \<Rightarrow> string \<Rightarrow> cat_row list \<Rightarrow> bool" where
  "categorical_table df col rows =
     (case cat_table_unsorted df col of Inl e \<Rightarrow> False
      | Inr us \<Rightarrow> sort_values_desc c_total us rows)"

text \<open>
  The loop over \<^verbatim>\<open>cat_cols\<close>, skipping the columns the frame does not have: the sheet is
  the list of the tables, each under the name of its column.
\<close>

definition sheet_categoricals :: "dataframe \<Rightarrow> (string \<times> cat_row list) list \<Rightarrow> bool" where
  "sheet_categoricals df tables =
     list_all2 (\<lambda>col t. fst t = col \<and> categorical_table df col (snd t))
       (filter (\<lambda>c. c \<in> set (map fst df)) (map fst cat_cols)) tables"

text \<open>The row flag of the sheet: \<^verbatim>\<open>r["fraud_rate"] > 0.4\<close>.\<close>

definition cat_flag :: "cat_row \<Rightarrow> bool" where
  "cat_flag r = np_gt (c_fraud_rate r) (4 / 10)"

definition cat_cells :: "cat_row \<Rightarrow> cell list" where
  "cat_cells r =
     [c_value r, CInt (int (c_total r)), CStr (np_str (c_pct_all r) @ ''%''),
      CNum (Fin (c_fraud r)), CStr (np_fmt 1 (np_times100 (c_fraud_rate r)) @ ''%'')]"

text \<open>The label column holds a number in every row.\<close>

definition label_complete :: "dataframe \<Rightarrow> bool" where
  "label_complete df =
     (case map_of df ''label'' of Some (NumCol ls) \<Rightarrow> None \<notin> set ls | _ \<Rightarrow> False)"

section \<open>Sheet 1: overview (\<^verbatim>\<open>sheet_overview\<close>)\<close>

text \<open>\<^verbatim>\<open>f"{n:,}"\<close> on an integer: the digits in groups of three, separated by commas.\<close>

fun fmt_commas :: "nat \<Rightarrow> string" where
  "fmt_commas n =
     (if n < 1000 then nat_digits n
      else fmt_commas (n div 1000) @ '','' @ zero_pad 3 (nat_digits (n mod 1000)))"

declare fmt_commas.simps [simp del]

text \<open>
  \<^verbatim>\<open>str(x)\<close> and \<^verbatim>\<open>f"{x:,}"\<close> on a number. A numeric column without missing values whose
  values are all whole stands for an integer column: its sum and its extremes are integers and
  print as their digits. Any other numeric column is a column of doubles: a double prints as
  its shortest decimal form, which for a decimal fraction of at most sixteen digits is that
  fraction, with at least one digit after the point. (Exponent notation, which Python uses
  for very large and very small doubles, is not modelled.)
\<close>

definition int_valued :: "real option list \<Rightarrow> bool" where
  "int_valued vs = list_all (\<lambda>v. case v of None \<Rightarrow> False | Some x \<Rightarrow> x = of_int \<lfloor>x\<rfloor>) vs"

definition frac_digits :: "real \<Rightarrow> nat" where
  "frac_digits x =
     (case find (\<lambda>p. x * 10 ^ p = of_int \<lfloor>x * 10 ^ p\<rfloor>) [1..<17] of Some p \<Rightarrow> p | None \<Rightarrow> 17)"

definition num_str :: "bool \<Rightarrow> bool \<Rightarrow> real \<Rightarrow> string" where
  "num_str commas whole x =
     (let p = (if whole then 0 else frac_digits x);
          a = nat \<bar>rint (x * 10 ^ p)\<bar>;
          ip = a div 10 ^ p
      in (if x < 0 then ''-'' else '''') @ (if commas then fmt_commas ip else nat_digits ip) @
         (if whole then '''' else ''.'' @ zero_pad p (nat_digits (a mod 10 ^ p))))"

text \<open>
  \<^verbatim>\<open>str(df["timestamp"].min())[:19]\<close> and the same with \<^verbatim>\<open>max\<close>. A datetime column is held
  as an object column of its ISO texts \<^verbatim>\<open>YYYY-MM-DD HH:MM:SS\<close>, whose order as strings is
  the order in time and whose text is what \<^verbatim>\<open>str\<close> prints. The extremes skip missing
  values and are not-a-number when there is no value; on an object column that holds both
  strings and missing values the comparison of a string with the filler raises.
\<close>

fun date_range :: "column \<Rightarrow> error + string \<times> string" where
  "date_range (ObjCol vs) =
     (let xs = present vs
      in if xs = [] then Inr (''nan'', ''nan'')
         else if None \<in> set vs then Inl (TypeError ''timestamp'')
         else Inr (take 19 (fold min xs (hd xs)), take 19 (fold max xs (hd xs))))"
| "date_range (NumCol vs) =
     (let xs = present vs
      in if xs = [] then Inr (''nan'', ''nan'')
         else Inr (take 19 (num_str False (int_valued vs) (fold min xs (hd xs))),
                   take 19 (num_str False (int_valued vs) (fold max xs (hd xs)))))"

text \<open>
  \<^verbatim>\<open>f"{df['label'].sum():,}"\<close>: the sum of a numeric label; an object column without any
  value sums to the integer 0; the sum of strings is a string, which the format refuses, and
  a string cannot be added to the filler of a missing value.
\<close>

fun label_sum_text :: "column \<Rightarrow> error + string" where
  "label_sum_text (NumCol ls) = Inr (num_str True (int_valued ls) (series_sum ls))"
| "label_sum_text (ObjCol ls) =
     (if \<forall>v \<in> set ls. v = None then Inr ''0''
      else if None \<in> set ls then Inl (TypeError ''label'') else Inl (ValueError ''label''))"

text \<open>The label as the numbers the other reductions see, once the sum has been printed.\<close>

fun label_values :: "column \<Rightarrow> real option list" where
  "label_values (NumCol ls) = ls"
| "label_values (ObjCol ls) = map (\<lambda>_. None) ls"

text \<open>\<^verbatim>\<open>Series.nunique()\<close>: the number of distinct non-missing values.\<close>

fun col_nunique :: "column \<Rightarrow> nat" where
  "col_nunique (NumCol vs) = length (remdups (present vs))"
| "col_nunique (ObjCol vs) = length (remdups (present vs))"

text \<open>
  \<^verbatim>\<open>", ".join(df['channel'].unique())\<close>: \<^verbatim>\<open>unique\<close> lists the distinct values in order of
  first appearance, the missing value among them; \<^verbatim>\<open>join\<close> raises TypeError on an item that
  is no string, so on a missing value and on a number.
\<close>

definition unique_vals :: "'a list \<Rightarrow> 'a list" where
  "unique_vals xs = rev (remdups (rev xs))"

fun join_str :: "string \<Rightarrow> string list \<Rightarrow> string" where
  "join_str sep [] = ''''"
| "join_str sep [x] = x"
| "join_str sep (x # y # ys) = x @ sep @ join_str sep (y # ys)"

fun channels_text :: "column \<Rightarrow> error + string" where
  "channels_text (ObjCol vs) =
     (if None \<in> set vs then Inl (TypeError ''channel'')
      else Inr (join_str '', '' (unique_vals (present vs))))"
| "channels_text (NumCol vs) = (if vs = [] then Inr '''' else Inl (TypeError ''channel''))"

text \<open>
  The list \<^verbatim>\<open>metrics\<close>. Its fourteen values are computed in the order of the list, so the
  first column that is missing, or the first value that cannot be computed, decides the
  error: \<^verbatim>\<open>timestamp\<close>, \<^verbatim>\<open>label\<close>, \<^verbatim>\<open>customer_id\<close>, \<^verbatim>\<open>sender_account_id\<close>, \<^verbatim>\<open>device_id\<close>,
  \<^verbatim>\<open>transaction_type\<close>, \<^verbatim>\<open>channel\<close>.
\<close>

definition overview_metrics :: "dataframe \<Rightarrow> error + (string \<times> string) list" where
  "overview_metrics df =
     (case get_col df ''timestamp'' of Inl e \<Rightarrow> Inl e
      | Inr ts \<Rightarrow>
     (case date_range ts of Inl e \<Rightarrow> Inl e
      | Inr (lo, hi) \<Rightarrow>
     (case get_col df ''label'' of Inl e \<Rightarrow> Inl e
      | Inr lab \<Rightarrow>
     (case label_sum_text lab of Inl e \<Rightarrow> Inl e
      | Inr fraud \<Rightarrow>
     (case get_col df ''customer_id'' of Inl e \<Rightarrow> Inl e
      | Inr cu \<Rightarrow>
     (case get_col df ''sender_account_id'' of Inl e \<Rightarrow> Inl e
      | Inr sa \<Rightarrow>
     (case get_col df ''device_id'' of Inl e \<Rightarrow> Inl e
      | Inr dv \<Rightarrow>
     (case get_col df ''transaction_type'' of Inl e \<Rightarrow> Inl e
      | Inr tt \<Rightarrow>
     (case get_col df ''channel'' of Inl e \<Rightarrow> Inl e
      | Inr ch \<Rightarrow>
     (case channels_text ch of Inl e \<Rightarrow> Inl e
      | Inr chs \<Rightarrow>
        Inr [(''Total Transactions'', fmt_commas (len_df df)),
             (''Total Columns / Features'', nat_digits (length df)),
             (''Date Range Start'', lo),
             (''Date Range End'', hi),
             (''Fraud Transactions (label=1)'', fraud),
             (''Legitimate (label=0)'',
                fmt_commas (length (filter (\<lambda>v. v = Some 0) (label_values lab)))),
             (''Overall Fraud Rate'',
                np_fmt 2 (np_times100 (series_mean (label_values lab))) @ ''%''),
             (''Unique Customers'', fmt_commas (col_nunique cu)),
             (''Unique Sender Accounts'', fmt_commas (col_nunique sa)),
             (''Unique Devices'', fmt_commas (col_nunique dv)),
             (''Unique Transaction Types'', nat_digits (col_nunique tt)),
             (''Channels'', chs),
             (''Columns with Nulls'',
                nat_digits (length (filter (\<lambda>nc. col_nulls (snd nc) > 0) df))),
             (''Total Missing Cells'',
                fmt_commas (sum_list (map (\<lambda>nc. col_nulls (snd nc)) df)))]))))))))))"

text \<open>
  The fraud-type block. \<^verbatim>\<open>ft = df["fraud_type"].value_counts().reset_index()\<close> counts the
  rows of every non-missing value, \<^verbatim>\<open>pct_all = (count / len(df) * 100).round(2)\<close>, and
  \<^verbatim>\<open>fraud_rate\<close> is the value's entry in
  \<^verbatim>\<open>df.groupby("fraud_type")["label"].mean().round(4)\<close>.
\<close>

record ft_row =
  ft_value :: cell
  ft_count :: nat
  ft_pct_all :: npfloat
  ft_fraud_rate :: npfloat

definition value_counts_label :: "('k::linorder) option list \<Rightarrow> real option list
    \<Rightarrow> ('k option \<times> nat \<times> npfloat) list" where
  "value_counts_label ks ls =
     map (\<lambda>k. (k, length (filter (\<lambda>x. x = k) ks),
               series_mean (map snd (filter (\<lambda>p. fst p = k) (zip ks ls)))))
         (group_keys True ks)"

fun fraud_type_counts :: "column \<Rightarrow> real option list \<Rightarrow> (cell \<times> nat \<times> npfloat) list" where
  "fraud_type_counts (ObjCol ks) ls = map (\<lambda>(k, r). (str_key k, r)) (value_counts_label ks ls)"
| "fraud_type_counts (NumCol ks) ls = map (\<lambda>(k, r). (num_key k, r)) (value_counts_label ks ls)"

fun ft_row_of :: "nat \<Rightarrow> cell \<times> nat \<times> npfloat \<Rightarrow> ft_row" where
  "ft_row_of len (k, n, m) =
     \<lparr>ft_value = k, ft_count = n,
      ft_pct_all = np_round 2 (np_times100 (np_div (Fin (of_nat n)) (Fin (of_nat len)))),
      ft_fraud_rate = np_round 4 m\<rparr>"

definition fraud_type_unsorted :: "dataframe \<Rightarrow> error + ft_row list" where
  "fraud_type_unsorted df =
     (case get_col df ''fraud_type'' of Inl e \<Rightarrow> Inl e
      | Inr c \<Rightarrow>
     (case get_num df ''label'' of Inl e \<Rightarrow> Inl e
      | Inr ls \<Rightarrow> Inr (map (ft_row_of (len_df df)) (fraud_type_counts c ls))))"

text \<open>The sheet row \<^verbatim>\<open>[fraud_type, count, f"{pct_all}%", f"{fraud_rate*100:.1f}%"]\<close>.\<close>

definition ft_cells :: "ft_row \<Rightarrow> cell list" where
  "ft_cells r =
     [ft_value r, CInt (int (ft_count r)), CStr (np_str (ft_pct_all r) @ ''%''),
      CStr (np_fmt 1 (np_times100 (ft_fraud_rate r)) @ ''%'')]"

text \<open>
  The channel block:
  \<^verbatim>\<open>ch = df.groupby("channel")["label"].agg(["count","sum","mean"]).reset_index()\<close>,
  \<^verbatim>\<open>ch["fraud_rate"] = (ch["fraud_rate"]*100).round(2)\<close>, and one sheet row
  \<^verbatim>\<open>[channel, total, fraud_count, f"{fraud_rate}%"]\<close> per row of \<^verbatim>\<open>ch\<close>.
\<close>

definition channel_rows :: "dataframe \<Rightarrow> error + cell list list" where
  "channel_rows df =
     (case get_col df ''channel'' of Inl e \<Rightarrow> Inl e
      | Inr c \<Rightarrow>
     (case get_num df ''label'' of Inl e \<Rightarrow> Inl e
      | Inr ls \<Rightarrow>
        Inr (map (\<lambda>(k, n, s, m).
                    [k, CInt (int n), CNum (Fin s), CStr (np_str (np_round 2 (np_times100 m)) @ ''%'')])
                 (groupby_agg True c ls))))"

text \<open>
  The function as a whole computes the metrics, then the fraud-type block, then the channel
  block, and stops at the first error. \<^verbatim>\<open>value_counts\<close> orders its rows by descending
  count with the default sort, so a frame has an overview for every such order of the
  fraud-type rows; it has none when one of the three blocks raises.
\<close>

definition overview_blocks ::
    "dataframe \<Rightarrow> error + (string \<times> string) list \<times> ft_row list \<times> cell list list" where
  "overview_blocks df =
     (case overview_metrics df of Inl e \<Rightarrow> Inl e
      | Inr ms \<Rightarrow>
     (case fraud_type_unsorted df of Inl e \<Rightarrow> Inl e
      | Inr fts \<Rightarrow>
     (case channel_rows df of Inl e \<Rightarrow> Inl e
      | Inr chs \<Rightarrow> Inr (ms, fts, chs))))"

record overview =
  o_metrics :: "(string \<times> string) list"
  o_fraud_types :: "ft_row list"
  o_channels :: "cell list list"

definition sheet_overview :: "dataframe \<Rightarrow> overview \<Rightarrow> bool" where
  "sheet_overview df out =
     (case overview_blocks df of Inl e \<Rightarrow> False
      | Inr (ms, fts, chs) \<Rightarrow>
          o_metrics out = ms \<and> sort_values_desc ft_count fts (o_fraud_types out)
        \<and> o_channels out = chs)"

section \<open>Sheet 8: the sections on trigger counts and severities, and the whole sheet\<close>

text \<open>
  Section 2:
  \<^verbatim>\<open>tc = df.groupby("rule_trigger_count")["label"].agg(["count","sum","mean"]).reset_index()\<close>
  and one row
  \<^verbatim>\<open>[trigger_count, total, f"{total/len(df)*100:.1f}%", fraud, f"{fraud_rate*100:.1f}%"]\<close>
  per group. A frame without the column \<^verbatim>\<open>rule_trigger_count\<close> raises KeyError here.
\<close>

definition trigger_count_rows :: "dataframe \<Rightarrow> error + cell list list" where
  "trigger_count_rows df =
     (case get_col df ''rule_trigger_count'' of Inl e \<Rightarrow> Inl e
      | Inr c \<Rightarrow>
     (case get_num df ''label'' of Inl e \<Rightarrow> Inl e
      | Inr ls \<Rightarrow>
        Inr (map (\<lambda>(k, n, s, m).
                    [k, CInt (int n),
                     CStr (np_fmt 1 (np_times100 (np_div (Fin (of_nat n)) (Fin (of_nat (len_df df)))))
                           @ ''%''),
                     CNum (Fin s), CStr (np_fmt 1 (np_times100 m) @ ''%'')])
                 (groupby_agg True c ls))))"

text \<open>
  \<^verbatim>\<open>int(s)\<close> on a string: blanks around it are dropped, a sign may come first, and the rest
  must be decimal digits, single underscores allowed between two digits; anything else raises
  ValueError.
\<close>

definition py_space :: "char \<Rightarrow> bool" where
  "py_space c = (c \<in> set [CHR '' '', CHR 0x09, CHR 0x0A, CHR 0x0B, CHR 0x0C, CHR 0x0D])"

definition py_strip :: "string \<Rightarrow> string" where
  "py_strip s = rev (dropWhile py_space (rev (dropWhile py_space s)))"

definition is_digit :: "char \<Rightarrow> bool" where
  "is_digit c = (c \<in> set ''0123456789'')"

fun py_digits :: "bool \<Rightarrow> nat \<Rightarrow> string \<Rightarrow> nat option" where
  "py_digits prev acc [] = (if prev then Some acc else None)"
| "py_digits prev acc (c # cs) =
     (if is_digit c then py_digits True (acc * 10 + (of_char c - 48)) cs
      else if c = CHR ''_'' \<and> prev then py_digits False acc cs
      else None)"

definition py_int_str :: "string \<Rightarrow> error + int" where
  "py_int_str s =
     (let t = py_strip s;
          neg = (t \<noteq> [] \<and> hd t = CHR ''-'');
          r = (if t \<noteq> [] \<and> (hd t = CHR ''-'' \<or> hd t = CHR ''+'') then tl t else t)
      in case py_digits False 0 r of
           None \<Rightarrow> Inl (ValueError s)
         | Some n \<Rightarrow> Inr (if neg then - int n else int n))"

text \<open>\<^verbatim>\<open>int(r["max_rule_severity"])\<close> on the key of a group.\<close>

fun severity_key :: "cell \<Rightarrow> error + int" where
  "severity_key (CNum (Fin x)) = Inr (py_int x)"
| "severity_key (CNum PInf) = Inl (ValueError ''inf'')"
| "severity_key (CNum NInf) = Inl (ValueError ''-inf'')"
| "severity_key (CNum NaN) = Inl (ValueError ''nan'')"
| "severity_key (CStr s) = py_int_str s"
| "severity_key (CInt i) = Inr i"

definition sev_desc :: "int \<rightharpoonup> string" where
  "sev_desc = map_of
     [(0, ''No rules triggered''), (1, ''Low-severity rule(s) only''),
      (2, ''Medium-severity rule(s)''), (3, ''High-severity rule(s)'')]"

text \<open>
  Section 3:
  \<^verbatim>\<open>ms = df.groupby("max_rule_severity")["label"].agg(["count","sum","mean"]).reset_index()\<close>
  and one row
  \<^verbatim>\<open>[int(sev), sev_desc.get(int(sev), ""), count, sum, f"{mean*100:.1f}%"]\<close> per group. A
  frame without the column \<^verbatim>\<open>max_rule_severity\<close> raises KeyError here.
\<close>

fun severity_loop :: "(cell \<times> nat \<times> real \<times> npfloat) list \<Rightarrow> error + cell list list" where
  "severity_loop [] = Inr []"
| "severity_loop ((k, n, s, m) # rest) =
     (case severity_key k of Inl e \<Rightarrow> Inl e
      | Inr i \<Rightarrow>
     (case severity_loop rest of Inl e \<Rightarrow> Inl e
      | Inr rows \<Rightarrow>
        Inr ([CInt i, CStr (case sev_desc i of None \<Rightarrow> '''' | Some d \<Rightarrow> d), CInt (int n),
              CNum (Fin s), CStr (np_fmt 1 (np_times100 m) @ ''%'')] # rows)))"

definition severity_rows :: "dataframe \<Rightarrow> error + cell list list" where
  "severity_rows df =
     (case get_col df ''max_rule_severity'' of Inl e \<Rightarrow> Inl e
      | Inr c \<Rightarrow>
     (case get_num df ''label'' of Inl e \<Rightarrow> Inl e
      | Inr ls \<Rightarrow> severity_loop (groupby_agg True c ls)))"

text \<open>
  The function as a whole writes the per-rule rows, then the rows of Section 2, then the
  rows of Section 3, and stops at the first error.
\<close>

record rules_sheet =
  per_rule_rows :: "cell list list"
  trigger_count_section :: "cell list list"
  severity_section :: "cell list list"

definition sheet_rules :: "dataframe \<Rightarrow> error + rules_sheet" where
  "sheet_rules df =
     (case sheet_rules_stats df of Inl e \<Rightarrow> Inl e
      | Inr stats \<Rightarrow>
     (case trigger_count_rows df of Inl e \<Rightarrow> Inl e
      | Inr tc \<Rightarrow>
     (case severity_rows df of Inl e \<Rightarrow> Inl e
      | Inr ms \<Rightarrow>
        Inr \<lparr>per_rule_rows = map rule_row stats, trigger_count_section = tc,
             severity_section = ms\<rparr>)))"

text \<open>
  The two rates of a rule in the words of the sheet's headers, counted on the rows of the
  frame: of the rows where the rule column holds \<^verbatim>\<open>v\<close>, the percentage whose label is 1;
  not-a-number when there is no such row.
\<close>

definition rows_with :: "real option list \<Rightarrow> real \<Rightarrow> nat" where
  "rows_with vs v = length (filter (\<lambda>x. x = Some v) vs)"

definition fraud_rows_with :: "real option list \<Rightarrow> real \<Rightarrow> real option list \<Rightarrow> nat" where
  "fraud_rows_with vs v ls = length (filter (\<lambda>p. fst p = Some v \<and> snd p = Some 1) (zip vs ls))"


text \<open>
  The fraud rate when triggered of the rule column \<^verbatim>\<open>c\<close> of a frame: the percentage of
  fraud among the rows where the rule is 1, and 0 for a rule that no row triggers.
\<close>

definition triggered_fraud_rate :: "dataframe \<Rightarrow> string \<Rightarrow> real" where
  "triggered_fraud_rate df c =
     (case (map_of df c, map_of df ''label'') of
        (Some (NumCol vs), Some (NumCol ls)) \<Rightarrow>
          (if rows_with vs 1 = 0 then 0
           else of_nat (fraud_rows_with vs 1 ls) / of_nat (rows_with vs 1) * 100)
      | _ \<Rightarrow> 0)"

section \<open>Sheet 4: descriptive statistics (\<^verbatim>\<open>sheet_desc_stats\<close>)\<close>

text \<open>
  \<^verbatim>\<open>numeric_cols = df.select_dtypes(include=[np.number]).columns.tolist()\<close> without the two
  join keys \<^verbatim>\<open>account_id_x\<close> and \<^verbatim>\<open>account_id_y\<close>, in column order.
\<close>

fun is_numeric :: "column \<Rightarrow> bool" where
  "is_numeric (NumCol vs) = True"
| "is_numeric (ObjCol vs) = False"

definition select_numeric :: "dataframe \<Rightarrow> string list" where
  "select_numeric df = map fst (filter (\<lambda>nc. is_numeric (snd nc)) df)"

definition desc_numeric_cols :: "dataframe \<Rightarrow> string list" where
  "desc_numeric_cols df =
     filter (\<lambda>c. c \<notin> set [''account_id_x'', ''account_id_y'']) (select_numeric df)"

text \<open>
  The reductions of \<^verbatim>\<open>describe\<close>, each over the non-missing values of a column and each
  not-a-number when there is none: the sample standard deviation (\<^verbatim>\<open>ddof=1\<close>, undefined
  for a single value too), the extremes, and the quantile by linear interpolation between
  order statistics.
\<close>

definition series_std :: "real option list \<Rightarrow> npfloat" where
  "series_std vs =
     (let xs = present vs; n = length xs
      in if n \<le> 1 then NaN
         else let m = sum_list xs / of_nat n
              in Fin (sqrt (sum_list (map (\<lambda>x. (x - m)\<^sup>2) xs) / of_nat (n - 1))))"

definition series_min :: "real option list \<Rightarrow> npfloat" where
  "series_min vs = (let xs = present vs in if xs = [] then NaN else Fin (Min (set xs)))"

definition series_max :: "real option list \<Rightarrow> npfloat" where
  "series_max vs = (let xs = present vs in if xs = [] then NaN else Fin (Max (set xs)))"

definition series_quantile :: "real \<Rightarrow> real option list \<Rightarrow> npfloat" where
  "series_quantile q vs =
     (let s = sort (present vs)
      in if s = [] then NaN
         else let h = q * of_nat (length s - 1); lo = nat \<lfloor>h\<rfloor>; frac = h - of_nat lo
              in if frac = 0 then Fin (s ! lo)
                 else Fin (s ! lo + frac * (s ! (lo + 1) - s ! lo)))"

text \<open>
  One row of \<^verbatim>\<open>stats\<close>: the transposed \<^verbatim>\<open>describe\<close> rounded to four decimals, with
  \<^verbatim>\<open>null_count\<close> and \<^verbatim>\<open>null_pct = (isnull().mean() * 100).round(2)\<close> appended.
\<close>

record desc_row =
  d_feature :: string
  d_count :: nat
  d_mean :: npfloat
  d_std :: npfloat
  d_min :: npfloat
  d_p25 :: npfloat
  d_p50 :: npfloat
  d_p75 :: npfloat
  d_p90 :: npfloat
  d_p95 :: npfloat
  d_p99 :: npfloat
  d_max :: npfloat
  d_null_count :: nat
  d_null_pct :: npfloat

definition desc_row_of :: "string \<Rightarrow> real option list \<Rightarrow> desc_row" where
  "desc_row_of c vs =
     \<lparr>d_feature = c,
      d_count = length (present vs),
      d_mean = np_round 4 (series_mean vs),
      d_std = np_round 4 (series_std vs),
      d_min = np_round 4 (series_min vs),
      d_p25 = np_round 4 (series_quantile (25 / 100) vs),
      d_p50 = np_round 4 (series_quantile (50 / 100) vs),
      d_p75 = np_round 4 (series_quantile (75 / 100) vs),
      d_p90 = np_round 4 (series_quantile (90 / 100) vs),
      d_p95 = np_round 4 (series_quantile (95 / 100) vs),
      d_p99 = np_round 4 (series_quantile (99 / 100) vs),
      d_max = np_round 4 (series_max vs),
      d_null_count = count_nulls vs,
      d_null_pct = np_round 2 (np_times100
                     (np_div (Fin (of_nat (count_nulls vs))) (Fin (of_nat (length vs)))))\<rparr>"

fun desc_rows :: "dataframe \<Rightarrow> string list \<Rightarrow> error + desc_row list" where
  "desc_rows df [] = Inr []"
| "desc_rows df (c # cs) =
     (case get_num df c of Inl e \<Rightarrow> Inl e
      | Inr vs \<Rightarrow>
     (case desc_rows df cs of Inl e \<Rightarrow> Inl e
      | Inr rest \<Rightarrow> Inr (desc_row_of c vs # rest)))"

text \<open>\<^verbatim>\<open>describe\<close> refuses a frame without columns.\<close>

definition sheet_desc_stats :: "dataframe \<Rightarrow> error + desc_row list" where
  "sheet_desc_stats df =
     (if desc_numeric_cols df = [] then Inl (ValueError ''Cannot describe a DataFrame without columns'')
      else desc_rows df (desc_numeric_cols df))"

definition desc_cells :: "desc_row \<Rightarrow> cell list" where
  "desc_cells r =
     [CStr (d_feature r), CInt (int (d_count r)), CNum (d_mean r), CNum (d_std r), CNum (d_min r),
      CNum (d_p25 r), CNum (d_p50 r), CNum (d_p75 r), CNum (d_p90 r), CNum (d_p95 r),
      CNum (d_p99 r), CNum (d_max r), CInt (int (d_null_count r)), CNum (d_null_pct r)]"

section \<open>Sheet 11: correlations with the label (\<^verbatim>\<open>sheet_correlations\<close>)\<close>

text \<open>
  \<^verbatim>\<open>numeric_cols = [c for c in numeric_cols if c not in ["label","account_id_x","account_id_y"]]\<close>
\<close>

definition corr_numeric_cols :: "dataframe \<Rightarrow> string list" where
  "corr_numeric_cols df =
     filter (\<lambda>c. c \<notin> set [''label'', ''account_id_x'', ''account_id_y'']) (select_numeric df)"

text \<open>
  \<^verbatim>\<open>DataFrame.corr()\<close> is Pearson's coefficient on the rows where both columns hold a
  value. With the sums of products of deviations \<^verbatim>\<open>sxy\<close>, \<^verbatim>\<open>sxx\<close> and \<^verbatim>\<open>syy\<close> it is
  \<^verbatim>\<open>sxy / sqrt(sxx * syy)\<close> when that divisor is not zero and not-a-number otherwise, as
  it is when no row has both values. (The library also clips the quotient to the interval
  from -1 to 1 against rounding error; on exact reals the quotient is inside it already, as
  proved below, so the clip is not part of the definition.)
\<close>

definition complete_pairs :: "real option list \<Rightarrow> real option list \<Rightarrow> (real \<times> real) list" where
  "complete_pairs xs ys = [(x, y). (Some x, Some y) \<leftarrow> zip xs ys]"

definition pearson :: "(real \<times> real) list \<Rightarrow> npfloat" where
  "pearson ps =
     (if ps = [] then NaN
      else let n = of_nat (length ps);
               mx = sum_list (map fst ps) / n;
               my = sum_list (map snd ps) / n;
               sxy = (\<Sum>p\<leftarrow>ps. (fst p - mx) * (snd p - my));
               sxx = (\<Sum>p\<leftarrow>ps. (fst p - mx)\<^sup>2);
               syy = (\<Sum>p\<leftarrow>ps. (snd p - my)\<^sup>2);
               d = sqrt (sxx * syy)
           in if d \<noteq> 0 then Fin (sxy / d) else NaN)"

text \<open>
  \<^verbatim>\<open>df[numeric_cols + ["label"]].corr()["label"].drop("label")\<close>: the coefficient of
  every numeric column with the label, in column order.
\<close>

fun corr_loop :: "dataframe \<Rightarrow> real option list \<Rightarrow> string list \<Rightarrow> error + (string \<times> npfloat) list" where
  "corr_loop df ls [] = Inr []"
| "corr_loop df ls (c # cs) =
     (case get_num df c of Inl e \<Rightarrow> Inl e
      | Inr vs \<Rightarrow>
     (case corr_loop df ls cs of Inl e \<Rightarrow> Inl e
      | Inr rest \<Rightarrow> Inr ((c, pearson (complete_pairs vs ls)) # rest)))"

definition corr_series :: "dataframe \<Rightarrow> error + (string \<times> npfloat) list" where
  "corr_series df =
     (case get_num df ''label'' of Inl e \<Rightarrow> Inl e
      | Inr ls \<Rightarrow> corr_loop df ls (corr_numeric_cols df))"

text \<open>
  \<^verbatim>\<open>.sort_values(key=abs, ascending=False)\<close>, again with the default sort: the entries
  that are not-a-number go last (\<^verbatim>\<open>na_position='last'\<close>), the others are arranged so
  that the absolute value never increases.
\<close>

fun abs_desc_nan_last :: "npfloat \<Rightarrow> npfloat \<Rightarrow> bool" where
  "abs_desc_nan_last a b =
     (np_isnan b \<or> (\<not> np_isnan a \<and> \<not> np_lt (np_abs a) (np_abs b)))"

definition sort_values_abs_desc :: "(string \<times> npfloat) list \<Rightarrow> (string \<times> npfloat) list \<Rightarrow> bool" where
  "sort_values_abs_desc xs ys =
     (mset ys = mset xs \<and> sorted_wrt (\<lambda>a b. abs_desc_nan_last (snd a) (snd b)) ys)"

text \<open>
  The columns added to \<^verbatim>\<open>corr_df\<close>. The two direction labels hold an arrow, written
  here as its UTF-8 bytes.
\<close>

definition positive_direction :: string where
  "positive_direction = ''Positive ('' @ [CHR 0xE2, CHR 0x86, CHR 0x91] @ '' with fraud)''"

definition negative_direction :: string where
  "negative_direction = ''Negative ('' @ [CHR 0xE2, CHR 0x86, CHR 0x93] @ '' with fraud)''"

text \<open>\<^verbatim>\<open>lambda x: "Positive (...)" if x > 0 else "Negative (...)"\<close>\<close>

definition direction :: "npfloat \<Rightarrow> string" where
  "direction x = (if np_gt x 0 then positive_direction else negative_direction)"

definition signal_strength :: "npfloat \<Rightarrow> string" where
  "signal_strength r =
     (if np_gt r (5 / 10) then ''Very Strong''
      else if np_gt r (3 / 10) then ''Strong''
      else if np_gt r (15 / 100) then ''Moderate''
      else if np_gt r (5 / 100) then ''Weak''
      else ''Negligible'')"

record corr_row =
  r_feature :: string
  r_pearson :: npfloat
  r_abs :: npfloat
  r_direction :: string
  r_group :: string
  r_signal :: string

definition corr_row_of :: "data_dict \<Rightarrow> string \<times> npfloat \<Rightarrow> corr_row" where
  "corr_row_of dd e =
     \<lparr>r_feature = fst e, r_pearson = snd e, r_abs = np_abs (snd e),
      r_direction = direction (snd e), r_group = dict_group dd (fst e),
      r_signal = signal_strength (np_abs (snd e))\<rparr>"

text \<open>
  The table \<^verbatim>\<open>corr_df\<close> of the sheet: the rows made from some arrangement of the
  coefficients that the sort admits.
\<close>

definition sheet_correlations :: "data_dict \<Rightarrow> dataframe \<Rightarrow> corr_row list \<Rightarrow> bool" where
  "sheet_correlations dd df rows =
     (case corr_series df of Inl e \<Rightarrow> False
      | Inr cs \<Rightarrow>
          sort_values_abs_desc cs (map (\<lambda>r. (r_feature r, r_pearson r)) rows)
        \<and> rows = map (corr_row_of dd) (map (\<lambda>r. (r_feature r, r_pearson r)) rows))"

text \<open>
  The sheet row of rank \<^verbatim>\<open>rank\<close>:
  \<^verbatim>\<open>[rank, feature, group, round(pearson_r, 4), round(abs_r, 4), direction, signal]\<close>.
\<close>

definition corr_cells :: "nat \<Rightarrow> corr_row \<Rightarrow> cell list" where
  "corr_cells rank r =
     [CInt (int rank), CStr (r_feature r), CStr (r_group r), CNum (np_round 4 (r_pearson r)),
      CNum (np_round 4 (r_abs r)), CStr (r_direction r), CStr (r_signal r)]"

definition corr_sheet_rows :: "corr_row list \<Rightarrow> cell list list" where
  "corr_sheet_rows rows = map (\<lambda>(i, r). corr_cells (Suc i) r) (enumerate 0 rows)"

text \<open>A column without variance: all its values are the same.\<close>

definition zero_variance :: "real option list \<Rightarrow> bool" where
  "zero_variance vs = (\<forall>v \<in> set vs. \<forall>w \<in> set vs. v \<noteq> None \<and> w \<noteq> None \<longrightarrow> v = w)"

text \<open>Every coefficient of the table is a number of absolute value at most one.\<close>

definition coefficient_bounded :: "corr_row \<Rightarrow> bool" where
  "coefficient_bounded r = (case r_pearson r of Fin x \<Rightarrow> \<bar>x\<bar> \<le> 1 | _ \<Rightarrow> False)"

text \<open>The absolute value of a finite coefficient, as a real.\<close>

definition abs_value :: "npfloat \<Rightarrow> real" where
  "abs_value a = (case a of Fin x \<Rightarrow> \<bar>x\<bar> | _ \<Rightarrow> 0)"

section \<open>Sheet 10: fraud types (\<^verbatim>\<open>sheet_fraud_types\<close>)\<close>

definition fraud_types :: "string list" where
  "fraud_types = [''mule_ring'', ''layering'', ''smurfing'', ''ATO'', ''identity_fraud'']"

text \<open>
  \<^verbatim>\<open>df["fraud_type"] == ft\<close>: the mask of the rows of one type. A number never equals a
  string, so a numeric column gives the empty selection.
\<close>

fun type_mask :: "column \<Rightarrow> string \<Rightarrow> bool list" where
  "type_mask (ObjCol ts) ft = map (\<lambda>t. t = Some ft) ts"
| "type_mask (NumCol vs) ft = map (\<lambda>v. False) vs"

text \<open>\<^verbatim>\<open>df[mask][col]\<close>: the values of a column on the rows of the mask.\<close>

definition masked :: "bool list \<Rightarrow> 'a list \<Rightarrow> 'a list" where
  "masked m vs = map snd (filter fst (zip m vs))"

text \<open>\<^verbatim>\<open>Series.median()\<close> is the quantile one half.\<close>

definition series_median :: "real option list \<Rightarrow> npfloat" where
  "series_median vs = series_quantile (1 / 2) vs"

text \<open>
  \<^verbatim>\<open>Series.mode()[0]\<close>: the most frequent value, the smallest one among several; on a
  selection without values \<^verbatim>\<open>mode()\<close> is empty and the index \<^verbatim>\<open>[0]\<close> raises.
\<close>

definition mode0 :: "('a::linorder) option list \<Rightarrow> error + 'a" where
  "mode0 vs =
     (let xs = present vs
      in if xs = [] then Inl (KeyError ''0'')
         else let top = Max (set (map (count_list xs) xs))
              in Inr (hd (sort (filter (\<lambda>x. count_list xs x = top) (remdups xs)))))"

fun col_mode0 :: "bool list \<Rightarrow> column \<Rightarrow> error + cell" where
  "col_mode0 m (ObjCol vs) = (case mode0 (masked m vs) of Inl e \<Rightarrow> Inl e | Inr s \<Rightarrow> Inr (CStr s))"
| "col_mode0 m (NumCol vs) = (case mode0 (masked m vs) of Inl e \<Rightarrow> Inl e | Inr x \<Rightarrow> Inr (CNum (Fin x)))"

text \<open>
  The ratio cell of a metric: \<^verbatim>\<open>f"{sub[col].mean()/normal[col].mean():.2f}x"\<close>. The
  division is written without a test of the divisor.
\<close>

definition ratio_cell :: "real option list \<Rightarrow> real option list \<Rightarrow> cell" where
  "ratio_cell sub normal = CStr (np_fmt 2 (np_div (series_mean sub) (series_mean normal)) @ ''x'')"

definition mean_cell :: "real option list \<Rightarrow> cell" where
  "mean_cell vs = CStr (np_fmt 2 (series_mean vs))"

text \<open>
  The list \<^verbatim>\<open>key_metrics\<close> of one fraud type: ten rows
  \<^verbatim>\<open>(metric, fraud value, normal value, ratio)\<close>, built in this order, so that the first
  missing column is the one reported.
\<close>

definition key_metrics :: "dataframe \<Rightarrow> string \<Rightarrow> error + cell list list" where
  "key_metrics df ft =
     (case get_col df ''fraud_type'' of Inl e \<Rightarrow> Inl e | Inr tc \<Rightarrow>
      let s = type_mask tc ft; n = type_mask tc ''normal'' in
     (case get_num df ''amount'' of Inl e \<Rightarrow> Inl e | Inr amount \<Rightarrow>
     (case get_num df ''is_night'' of Inl e \<Rightarrow> Inl e | Inr night \<Rightarrow>
     (case get_num df ''devices_per_account'' of Inl e \<Rightarrow> Inl e | Inr dpa \<Rightarrow>
     (case get_num df ''accounts_per_device'' of Inl e \<Rightarrow> Inl e | Inr apd \<Rightarrow>
     (case get_num df ''sender_out_degree_30d'' of Inl e \<Rightarrow> Inl e | Inr sod \<Rightarrow>
     (case get_num df ''shared_device_fraud_count'' of Inl e \<Rightarrow> Inl e | Inr sdf \<Rightarrow>
     (case get_col df ''channel'' of Inl e \<Rightarrow> Inl e | Inr ch \<Rightarrow>
     (case col_mode0 s ch of Inl e \<Rightarrow> Inl e | Inr ch_s \<Rightarrow>
     (case col_mode0 n ch of Inl e \<Rightarrow> Inl e | Inr ch_n \<Rightarrow>
     (case get_col df ''transaction_type'' of Inl e \<Rightarrow> Inl e | Inr tt \<Rightarrow>
     (case col_mode0 s tt of Inl e \<Rightarrow> Inl e | Inr tt_s \<Rightarrow>
     (case col_mode0 n tt of Inl e \<Rightarrow> Inl e | Inr tt_n \<Rightarrow>
        Inr [[CStr ''Transaction Count'', CInt (int (length (filter id s))),
                CInt (int (length (filter id n))), CStr ''''],
             [CStr ''Average Amount'', mean_cell (masked s amount), mean_cell (masked n amount),
                ratio_cell (masked s amount) (masked n amount)],
             [CStr ''Median Amount'', CStr (np_fmt 2 (series_median (masked s amount))),
                CStr (np_fmt 2 (series_median (masked n amount))), CStr ''''],
             [CStr ''Night Txn Rate'',
                CStr (np_fmt 1 (np_times100 (series_mean (masked s night))) @ ''%''),
                CStr (np_fmt 1 (np_times100 (series_mean (masked n night))) @ ''%''), CStr ''''],
             [CStr ''Avg devices_per_account'', mean_cell (masked s dpa), mean_cell (masked n dpa),
                ratio_cell (masked s dpa) (masked n dpa)],
             [CStr ''Avg accounts_per_device'', mean_cell (masked s apd), mean_cell (masked n apd),
                ratio_cell (masked s apd) (masked n apd)],
             [CStr ''Avg sender_out_degree_30d'', mean_cell (masked s sod), mean_cell (masked n sod),
                CStr ''''],
             [CStr ''Avg shared_device_fraud_count'', mean_cell (masked s sdf),
                mean_cell (masked n sdf), CStr ''''],
             [CStr ''Top Channel'', ch_s, ch_n, CStr ''''],
             [CStr ''Top Transaction Type'', tt_s, tt_n, CStr '''']])))))))))))))"

section \<open>Sheet 6: graph features, fraud against legitimate (\<^verbatim>\<open>sheet_graph_eda\<close>)\<close>

text \<open>The truth value of a double in \<^verbatim>\<open>if legit_m\<close>: false for zero only.\<close>

fun np_truthy :: "npfloat \<Rightarrow> bool" where
  "np_truthy (Fin x) = (x \<noteq> 0)"
| "np_truthy _ = True"

text \<open>
  One column of the second section, with values \<^verbatim>\<open>vs\<close> and labels \<^verbatim>\<open>ls\<close>: skipped when
  it has no value; otherwise
  \<^verbatim>\<open>ratio = round(fraud_m/legit_m, 2) if legit_m else float("nan")\<close>, printed as
  \<^verbatim>\<open>f"{ratio:.2f}x"\<close>.
\<close>

definition graph_ratio :: "real option list \<Rightarrow> real option list \<Rightarrow> npfloat" where
  "graph_ratio vs ls =
     (let legit_m = series_mean (loc_eq ls 0 vs); fraud_m = series_mean (loc_eq ls 1 vs)
      in if np_truthy legit_m then np_round 2 (np_div fraud_m legit_m) else NaN)"

definition graph_ratio_cell :: "real option list \<Rightarrow> real option list \<Rightarrow> string option" where
  "graph_ratio_cell vs ls =
     (if present vs = [] then None else Some (np_fmt 2 (graph_ratio vs ls) @ ''x''))"

section \<open>Example frames\<close>

definition example_rules_df :: dataframe where
  "example_rules_df =
     [(''label'', NumCol [Some 1, Some 1, Some 1, Some 0, Some 1, Some 1, Some 1, Some 0, Some 0, Some 0]),
      (''rule_a'', NumCol [Some 1, Some 1, Some 1, Some 1, Some 0, Some 0, Some 0, Some 0, Some 0, Some 0]),
      (''rule_b'', NumCol [Some 1, Some 1, Some 1, Some 0, Some 1, Some 1, Some 1, Some 0, Some 0, Some 0]),
      (''rule_trigger_count'', NumCol [Some 2, Some 2, Some 2, Some 1, Some 1, Some 1, Some 1, Some 0, Some 0, Some 0]),
      (''max_rule_severity'', NumCol [Some 3, Some 3, Some 3, Some 1, Some 2, Some 2, Some 2, Some 0, Some 0, Some 0])]"

text \<open>Two rules that tie at a fraud rate of 50 when triggered, around one at 100.\<close>

definition example_ties_df :: dataframe where
  "example_ties_df =
     [(''rule_x'', NumCol [Some 1, Some 1, Some 0, Some 0]),
      (''label'', NumCol [Some 1, Some 0, Some 1, Some 0]),
      (''rule_hi'', NumCol [Some 1, Some 0, Some 0, Some 0]),
      (''rule_y'', NumCol [Some 0, Some 1, Some 1, None]),
      (''rule_trigger_count'', NumCol [Some 2, Some 2, Some 1, Some 0]),
      (''max_rule_severity'', NumCol [Some 3, Some 2, Some 2, Some 0])]"

text \<open>A frame with a column that has nulls, and its table.\<close>

definition example_missing_df :: dataframe where
  "example_missing_df =
     [(''amount'', NumCol [Some 5, Some 7, Some 9]),
      (''channel'', ObjCol [Some ''web'', Some ''atm'', Some ''web'']),
      (''beneficiary_id'', ObjCol [None, Some ''B1'', None])]"

definition example_missing_rows :: "missing_row list" where
  "example_missing_rows =
     [\<lparr>m_column = ''beneficiary_id'', m_null_count = 2, m_null_pct = Fin (6667 / 100),
        m_dtype = ''object'', m_group = ''''\<rparr>,
      \<lparr>m_column = ''amount'', m_null_count = 0, m_null_pct = Fin 0,
        m_dtype = ''number'', m_group = ''''\<rparr>,
      \<lparr>m_column = ''channel'', m_null_count = 0, m_null_pct = Fin 0,
        m_dtype = ''object'', m_group = ''''\<rparr>]"

text \<open>
  A frame of two rows whose first two columns are complete and whose last two columns have
  one null each, and the table of it that lists both pairs of columns in reverse.
\<close>

definition example_tied_df :: dataframe where
  "example_tied_df =
     [(''amount'', NumCol [Some 5, Some 7]),
      (''channel'', ObjCol [Some ''web'', Some ''atm'']),
      (''beneficiary_id'', ObjCol [None, Some ''B1'']),
      (''beneficiary_type'', ObjCol [None, Some ''crypto''])]"

definition example_tied_rows :: "missing_row list" where
  "example_tied_rows =
     [\<lparr>m_column = ''beneficiary_type'', m_null_count = 1, m_null_pct = Fin 50,
        m_dtype = ''object'', m_group = ''''\<rparr>,
      \<lparr>m_column = ''beneficiary_id'', m_null_count = 1, m_null_pct = Fin 50,
        m_dtype = ''object'', m_group = ''''\<rparr>,
      \<lparr>m_column = ''channel'', m_null_count = 0, m_null_pct = Fin 0,
        m_dtype = ''object'', m_group = ''''\<rparr>,
      \<lparr>m_column = ''amount'', m_null_count = 0, m_null_pct = Fin 0,
        m_dtype = ''number'', m_group = ''''\<rparr>]"

text \<open>A frame with a channel that has a missing value, and its two tables.\<close>

definition example_cat_df :: dataframe where
  "example_cat_df =
     [(''channel'', ObjCol [Some ''web'', Some ''atm'', None, Some ''web'']),
      (''label'', NumCol [Some 1, Some 0, Some 1, Some 0]),
      (''kyc_level'', NumCol [Some 2, Some 1, Some 2, Some 2])]"

definition example_cat_tables :: "(string \<times> cat_row list) list" where
  "example_cat_tables =
     [(''channel'',
       [\<lparr>c_value = CStr ''web'', c_total = 2, c_fraud = 1,
          c_fraud_rate = Fin (1 / 2), c_pct_all = Fin 50\<rparr>,
        \<lparr>c_value = CStr ''atm'', c_total = 1, c_fraud = 0,
          c_fraud_rate = Fin 0, c_pct_all = Fin 25\<rparr>,
        \<lparr>c_value = CNum NaN, c_total = 1, c_fraud = 1,
          c_fraud_rate = Fin 1, c_pct_all = Fin 25\<rparr>]),
      (''kyc_level'',
       [\<lparr>c_value = CNum (Fin 2), c_total = 3, c_fraud = 2,
          c_fraud_rate = Fin (2 / 3), c_pct_all = Fin 75\<rparr>,
        \<lparr>c_value = CNum (Fin 1), c_total = 1, c_fraud = 0,
          c_fraud_rate = Fin 0, c_pct_all = Fin 25\<rparr>])]"

text \<open>Ten transactions on one channel, six of them fraud, and the overview of them.\<close>

definition example_overview_df :: dataframe where
  "example_overview_df =
     [(''timestamp'', ObjCol [Some ''2024-01-03 10:15:00'', Some ''2024-01-01 09:00:00'',
                            Some ''2024-01-05 18:30:00'', Some ''2024-01-02 11:45:00'',
                            Some ''2024-01-09 08:05:00'', Some ''2024-01-04 23:59:59'',
                            Some ''2024-01-07 12:00:00'', Some ''2024-01-10 16:20:00'',
                            Some ''2024-01-06 07:10:00'', Some ''2024-01-08 14:40:00'']),
      (''customer_id'', ObjCol [Some ''C1'', Some ''C2'', Some ''C1'', Some ''C3'', Some ''C2'',
                              Some ''C4'', Some ''C1'', Some ''C3'', Some ''C5'', Some ''C2'']),
      (''sender_account_id'', ObjCol [Some ''A1'', Some ''A2'', Some ''A1'', Some ''A3'', Some ''A2'',
                                    Some ''A4'', Some ''A6'', Some ''A3'', Some ''A5'', Some ''A2'']),
      (''device_id'', ObjCol [Some ''D1'', Some ''D2'', Some ''D1'', Some ''D1'', Some ''D2'',
                            Some ''D3'', Some ''D1'', Some ''D3'', Some ''D1'', Some ''D2'']),
      (''transaction_type'', ObjCol [Some ''UPI'', Some ''RTGS'', Some ''UPI'', Some ''NEFT'', Some ''UPI'',
                                   Some ''RTGS'', Some ''UPI'', Some ''NEFT'', Some ''UPI'', Some ''UPI'']),
      (''channel'', ObjCol (replicate 10 (Some ''web''))),
      (''fraud_type'', ObjCol [Some ''mule_ring'', Some ''normal'', Some ''layering'', Some ''mule_ring'',
                             Some ''normal'', Some ''ATO'', Some ''normal'', Some ''layering'',
                             Some ''mule_ring'', Some ''normal'']),
      (''label'', NumCol [Some 1, Some 0, Some 1, Some 1, Some 0, Some 1, Some 0, Some 1, Some 1, Some 0])]"

definition example_overview :: overview where
  "example_overview =
     \<lparr>o_metrics =
        [(''Total Transactions'', ''10''),
         (''Total Columns / Features'', ''8''),
         (''Date Range Start'', ''2024-01-01 09:00:00''),
         (''Date Range End'', ''2024-01-10 16:20:00''),
         (''Fraud Transactions (label=1)'', ''6''),
         (''Legitimate (label=0)'', ''4''),
         (''Overall Fraud Rate'', ''60.00%''),
         (''Unique Customers'', ''5''),
         (''Unique Sender Accounts'', ''6''),
         (''Unique Devices'', ''3''),
         (''Unique Transaction Types'', ''3''),
         (''Channels'', ''web''),
         (''Columns with Nulls'', ''0''),
         (''Total Missing Cells'', ''0'')],
      o_fraud_types =
        [\<lparr>ft_value = CStr ''normal'', ft_count = 4, ft_pct_all = Fin 40, ft_fraud_rate = Fin 0\<rparr>,
         \<lparr>ft_value = CStr ''mule_ring'', ft_count = 3, ft_pct_all = Fin 30, ft_fraud_rate = Fin 1\<rparr>,
         \<lparr>ft_value = CStr ''layering'', ft_count = 2, ft_pct_all = Fin 20, ft_fraud_rate = Fin 1\<rparr>,
         \<lparr>ft_value = CStr ''ATO'', ft_count = 1, ft_pct_all = Fin 10, ft_fraud_rate = Fin 1\<rparr>],
      o_channels = [[CStr ''web'', CInt 10, CNum (Fin 6), CStr ''60.0%'']]\<rparr>"

text \<open>A frame with a numeric column that has no value at all.\<close>

definition example_allnull_df :: dataframe where
  "example_allnull_df =
     [(''amount'', NumCol [Some 10, Some 30, Some 20]),
      (''sender_in_degree_30d'', NumCol [None, None, None]),
      (''channel'', ObjCol [Some ''web'', Some ''atm'', Some ''web''])]"

text \<open>
  A frame with a column equal to the label, a column uncorrelated with it and a constant
  column, and a correlation table of it.
\<close>

definition example_corr_df :: dataframe where
  "example_corr_df =
     [(''flat'', NumCol [Some 5, Some 5, Some 5, Some 5]),
      (''mixed'', NumCol [Some 1, Some 2, Some 1, Some 2]),
      (''label'', NumCol [Some 0, Some 0, Some 1, Some 1]),
      (''same'', NumCol [Some 0, Some 0, Some 1, Some 1])]"

definition example_corr_rows :: "corr_row list" where
  "example_corr_rows =
     [\<lparr>r_feature = ''same'', r_pearson = Fin 1, r_abs = Fin 1,
        r_direction = positive_direction, r_group = '''', r_signal = ''Very Strong''\<rparr>,
      \<lparr>r_feature = ''mixed'', r_pearson = Fin 0, r_abs = Fin 0,
        r_direction = negative_direction, r_group = '''', r_signal = ''Negligible''\<rparr>,
      \<lparr>r_feature = ''flat'', r_pearson = NaN, r_abs = NaN,
        r_direction = negative_direction, r_group = '''', r_signal = ''Negligible''\<rparr>]"

text \<open>
  One transaction of each type; the legitimate one was made at a branch, on an account
  without a device.
\<close>

definition example_types_df :: dataframe where
  "example_types_df =
     [(''fraud_type'', ObjCol [Some ''normal'', Some ''mule_ring'', Some ''layering'',
                              Some ''smurfing'', Some ''ATO'', Some ''identity_fraud'']),
      (''label'', NumCol [Some 0, Some 1, Some 1, Some 1, Some 1, Some 1]),
      (''amount'', NumCol [Some 100, Some 250, Some 900, Some 95, Some 4000, Some 300]),
      (''is_night'', NumCol [Some 0, Some 1, Some 1, Some 0, Some 1, Some 0]),
      (''devices_per_account'', NumCol [Some 0, Some 2, Some 0, Some 1, Some 3, Some 1]),
      (''accounts_per_device'', NumCol [Some 1, Some 4, Some 1, Some 1, Some 2, Some 1]),
      (''sender_out_degree_30d'', NumCol [Some 2, Some 9, Some 5, Some 3, Some 1, Some 2]),
      (''shared_device_fraud_count'', NumCol [Some 0, Some 3, Some 0, Some 0, Some 1, Some 0]),
      (''channel'', ObjCol [Some ''branch'', Some ''mobile'', Some ''web'', Some ''atm'',
                           Some ''web'', Some ''mobile'']),
      (''transaction_type'', ObjCol [Some ''cash_deposit'', Some ''UPI'', Some ''RTGS'',
                                    Some ''cash_deposit'', Some ''RTGS'', Some ''UPI''])]"

section \<open>Facts about the data frame primitives\<close>

lemma present_Cons_Some [simp]: "present (Some x # vs) = x # present vs"
  and present_Cons_None [simp]: "present (None # vs) = present vs"
  and present_Nil [simp]: "present [] = []"
  by (simp_all add: present_def)





lemma np_div_NaN_right [simp]: "np_div x NaN = NaN"
  by (cases x) simp_all



lemma set_py_insert [simp]: "set (py_insert k x ys) = insert x (set ys)"
  by (induction ys) auto

lemma set_py_sort_into [simp]: "set (py_sort_into k acc xs) = set acc \<union> set xs"
  by (induction xs arbitrary: acc) auto

lemma set_py_sort_reverse [simp]: "set (py_sort_reverse k xs) = set xs"
  by (simp add: py_sort_reverse_def)

lemma mset_py_insert [simp]: "mset (py_insert k x ys) = add_mset x (mset ys)"
  by (induction ys) auto

lemma mset_py_sort_into [simp]: "mset (py_sort_into k acc xs) = mset acc + mset xs"
  by (induction xs arbitrary: acc) auto

lemma mset_py_sort_reverse [simp]: "mset (py_sort_reverse k xs) = mset xs"
  by (simp add: py_sort_reverse_def)

lemmas fmt_simps = fmt_fixed_def str_hundredths_def rint_def nat_digits.simps digit_char_def
  zero_pad_def Let_def

section \<open>Facts about the stable sort\<close>

lemma np_lt_irrefl [simp]: "\<not> np_lt a a"
  by (cases a) simp_all








section \<open>The rule sheet: rates and lift\<close>




lemma py_int_of_nat [simp]: "py_int (of_nat n) = int n"
  by (simp add: py_int_def)











text \<open>The sheet of the example: a lift of 1.50 and an undefined lift.\<close>

lemma example_rules_sheet:
  "sheet_rules example_rules_df =
     Inr \<lparr>per_rule_rows =
            [[CStr ''rule_b'', CInt 6, CStr ''60.00%'', CStr ''100.0%'', CStr ''0.0%'', CStr ''N/A'',
              CStr ([CHR 0xF0, CHR 0x9F, CHR 0x94, CHR 0xB4] @ '' Very High'')],
             [CStr ''rule_a'', CInt 4, CStr ''40.00%'', CStr ''75.0%'', CStr ''50.0%'', CStr ''1.50x'',
              CStr ([CHR 0xF0, CHR 0x9F, CHR 0x94, CHR 0xB4] @ '' Very High'')]],
          trigger_count_section =
            [[CNum (Fin 0), CInt 3, CStr ''30.0%'', CNum (Fin 0), CStr ''0.0%''],
             [CNum (Fin 1), CInt 4, CStr ''40.0%'', CNum (Fin 3), CStr ''75.0%''],
             [CNum (Fin 2), CInt 3, CStr ''30.0%'', CNum (Fin 3), CStr ''100.0%'']],
          severity_section =
            [[CInt 0, CStr ''No rules triggered'', CInt 3, CNum (Fin 0), CStr ''0.0%''],
             [CInt 1, CStr ''Low-severity rule(s) only'', CInt 1, CNum (Fin 0), CStr ''0.0%''],
             [CInt 2, CStr ''Medium-severity rule(s)'', CInt 3, CNum (Fin 3), CStr ''100.0%''],
             [CInt 3, CStr ''High-severity rule(s)'', CInt 3, CNum (Fin 3), CStr ''100.0%'']]\<rparr>"
  by code_simp

section \<open>The rule sheet: order of the rows in the table\<close>



text \<open>
  The example: \<^verbatim>\<open>rule_x\<close> and \<^verbatim>\<open>rule_y\<close> tie at 50 and stand in the table in the order of
  their columns, after \<^verbatim>\<open>rule_hi\<close>, whose column stands between them in the frame.
\<close>

lemma example_ties_rates:
  "map (\<lambda>c. (c, triggered_fraud_rate example_ties_df c)) (rule_cols example_ties_df)
     = [(''rule_x'', 50), (''rule_hi'', 100), (''rule_y'', 50)]"
  by code_simp

lemma example_ties_sheet:
  "map (\<lambda>r. (r ! 0, r ! 3)) (per_rule_rows (projr (sheet_rules example_ties_df)))
     = [(CStr ''rule_hi'', CStr ''100.0%''), (CStr ''rule_x'', CStr ''50.0%''),
        (CStr ''rule_y'', CStr ''50.0%'')]"
  by code_simp

section \<open>The missing-value sheet\<close>

lemma sort_values_desc_exists: "\<exists>ys. sort_values_desc key xs ys"
proof -
  have "sorted_wrt (\<lambda>a b. key a \<ge> key b) (rev (sort_key key xs))"
    using sorted_sort_key[of key xs] by (simp add: sorted_wrt_rev sorted_map)
  then show ?thesis unfolding sort_values_desc_def
    by (intro exI[of _ "rev (sort_key key xs)"]) simp
qed

lemma nulls_unsorted_columns:
  "map (\<lambda>r. (m_column r, m_null_count r)) (nulls_unsorted dd df)
     = map (\<lambda>nc. (fst nc, col_nulls (snd nc))) df"
  by (simp add: nulls_unsorted_def case_prod_beta)

text \<open>
  Claim C3, as the code has it. The missing-value sheet has exactly one row per column of
  the frame, with that column's null count (columns without nulls included, with count 0),
  and the rows are in descending order of the null count. Some table is always produced.
  The order of rows with equal null counts is whatever the default sort of pandas leaves.
\<close>

theorem missing_rows_one_per_column_sorted:
  "(\<exists>rows. sheet_missing dd df rows) \<and>
   (\<forall>rows. sheet_missing dd df rows \<longrightarrow>
      mset (map (\<lambda>r. (m_column r, m_null_count r)) rows)
        = mset (map (\<lambda>nc. (fst nc, col_nulls (snd nc))) df)
    \<and> length rows = length df
    \<and> sorted_wrt (\<lambda>a b. m_null_count a \<ge> m_null_count b) rows)"
proof (intro conjI allI impI)
  show "\<exists>rows. sheet_missing dd df rows"
    unfolding sheet_missing_def by (rule sort_values_desc_exists)
next
  fix rows assume a: "sheet_missing dd df rows"
  then have m: "mset rows = mset (nulls_unsorted dd df)"
    by (simp add: sheet_missing_def sort_values_desc_def)
  have "mset (map (\<lambda>r. (m_column r, m_null_count r)) rows)
          = image_mset (\<lambda>r. (m_column r, m_null_count r)) (mset rows)" by simp
  also have "\<dots> = mset (map (\<lambda>r. (m_column r, m_null_count r)) (nulls_unsorted dd df))"
    by (simp add: m)
  finally show "mset (map (\<lambda>r. (m_column r, m_null_count r)) rows)
        = mset (map (\<lambda>nc. (fst nc, col_nulls (snd nc))) df)"
    by (simp only: nulls_unsorted_columns)
  have "length rows = length (nulls_unsorted dd df)" using m by (metis size_mset)
  then show "length rows = length df" by (simp add: nulls_unsorted_def)
  show "sorted_wrt (\<lambda>a b. m_null_count a \<ge> m_null_count b) rows"
    using a by (simp add: sheet_missing_def sort_values_desc_def)
qed

theorem missing_rows_one_per_column_sorted_witness:
  "sheet_missing Map.empty example_missing_df example_missing_rows \<and>
   mset (map (\<lambda>r. (m_column r, m_null_count r)) example_missing_rows)
        = mset (map (\<lambda>nc. (fst nc, col_nulls (snd nc))) example_missing_df)
    \<and> length example_missing_rows = length example_missing_df
    \<and> sorted_wrt (\<lambda>a b. m_null_count a \<ge> m_null_count b) example_missing_rows"
proof -
  have h: "sheet_missing Map.empty example_missing_df example_missing_rows"
    by (simp add: sheet_missing_def sort_values_desc_def nulls_unsorted_def example_missing_df_def
        example_missing_rows_def count_nulls_def dict_group_def round_nd_def rint_def Let_def
        add_mset_commute)
  from h missing_rows_one_per_column_sorted[of Map.empty example_missing_df] show ?thesis by blast
qed

text \<open>
  A frame whose first two columns are complete and whose last two columns have one null
  each. pandas sorts descending by reversing the keys, sorting them ascending and reversing
  the result; the keys 1, 1, 0, 0 go through the sorting network of numpy's vectorised
  quicksort, which exchanges the first with the fourth and the second with the third and
  leaves equal keys where they are. The table that comes back lists \<^verbatim>\<open>beneficiary_type\<close>
  before \<^verbatim>\<open>beneficiary_id\<close> and \<^verbatim>\<open>channel\<close> before \<^verbatim>\<open>amount\<close>: it is in descending
  order of the null count, and neither pair of ties is in column order.
\<close>

theorem missing_ties_not_in_column_order:
  "sheet_missing Map.empty example_tied_df example_tied_rows \<and>
   map m_column example_tied_rows = [''beneficiary_type'', ''beneficiary_id'', ''channel'', ''amount''] \<and>
   map fst example_tied_df = [''amount'', ''channel'', ''beneficiary_id'', ''beneficiary_type''] \<and>
   \<not> ties_in_column_order Map.empty example_tied_df example_tied_rows"
  by code_simp

section \<open>The categorical sheet: totals\<close>

lemma zip_filter_fst_length:
  "length ks = length ls \<Longrightarrow>
     length (filter (\<lambda>p. fst p = k) (zip ks ls)) = length (filter (\<lambda>x. x = k) ks)"
  by (induction ks ls rule: list_induct2) auto

lemma present_length_complete: "None \<notin> set vs \<Longrightarrow> length (present vs) = length vs"
proof (induction vs)
  case Nil
  then show ?case by simp
next
  case (Cons a vs)
  then show ?case by (cases a) auto
qed

lemma selection_subset: "set (map snd (filter P (zip ks ls))) \<subseteq> set ls"
  by (auto dest: set_zip_rightD)

lemma count_over_distinct_keys:
  assumes "distinct gs" and "set ks \<subseteq> set gs"
  shows "(\<Sum>k\<leftarrow>gs. length (filter (\<lambda>x. x = k) ks)) = length ks"
  using assms(2)
proof (induction ks)
  case Nil
  then show ?case by simp
next
  case (Cons x ks)
  have x: "x \<in> set gs" using Cons.prems by simp
  have "(\<Sum>k\<leftarrow>gs. length (filter (\<lambda>y. y = k) (x # ks)))
          = (\<Sum>k\<leftarrow>gs. (if x = k then 1 else 0) + length (filter (\<lambda>y. y = k) ks))"
    by (intro arg_cong[where f = sum_list] map_cong) auto
  also have "\<dots> = (\<Sum>k\<leftarrow>gs. if x = k then 1 else 0) + (\<Sum>k\<leftarrow>gs. length (filter (\<lambda>y. y = k) ks))"
    by (simp add: sum_list_addf)
  also have "(\<Sum>k\<leftarrow>gs. if x = k then 1 else 0) = (1::nat)"
    using assms(1) x
  proof (induction gs)
    case Nil
    then show ?case by simp
  next
    case (Cons g gs)
    show ?case
    proof (cases "x = g")
      case True
      then have "x \<notin> set gs" using Cons.prems by simp
      then have "(\<Sum>k\<leftarrow>gs. if x = k then 1 else 0) = (0::nat)"
        by (induction gs) auto
      then show ?thesis using True by simp
    next
      case False
      then show ?thesis using Cons by simp
    qed
  qed
  finally show ?case using Cons by simp
qed

lemma group_keys_all_distinct: "distinct (group_keys False ks)"
  by (auto simp: group_keys_def distinct_map)

lemma group_keys_all_set: "set (group_keys False ks) = set ks"
proof -
  have "Some ` set (present ks) \<union> (if None \<in> set ks then {None} else {}) = set ks"
  proof (induction ks)
    case Nil
    then show ?case by (simp add: present_def)
  next
    case (Cons a ks)
    then show ?case by (cases a) (auto simp: present_def split: if_splits)
  qed
  then show ?thesis by (auto simp: group_keys_def split: if_splits)
qed

lemma groupby_label_counts:
  assumes "length ks = length ls" and "None \<notin> set ls"
  shows "(\<Sum>g\<leftarrow>groupby_label False ks ls. fst (snd g)) = length ks"
proof -
  have "length (present (map snd (filter (\<lambda>p. fst p = k) (zip ks ls))))
          = length (filter (\<lambda>x. x = k) ks)" for k
  proof -
    have "None \<notin> set (map snd (filter (\<lambda>p. fst p = k) (zip ks ls)))"
      using assms(2) selection_subset[of "\<lambda>p. fst p = k" ks ls] by blast
    then show ?thesis
      using present_length_complete zip_filter_fst_length[OF assms(1), of k] by fastforce
  qed
  then have "(\<Sum>g\<leftarrow>groupby_label False ks ls. fst (snd g))
          = (\<Sum>k\<leftarrow>group_keys False ks. length (filter (\<lambda>x. x = k) ks))"
    by (simp add: groupby_label_def Let_def comp_def)
  also have "\<dots> = length ks"
    by (rule count_over_distinct_keys) (simp_all add: group_keys_all_distinct group_keys_all_set)
  finally show ?thesis .
qed

lemma groupby_agg_counts:
  assumes "col_len c = length ls" and "None \<notin> set ls"
  shows "(\<Sum>g\<leftarrow>groupby_agg False c ls. fst (snd g)) = length ls"
proof (cases c)
  case (NumCol ks)
  then show ?thesis using groupby_label_counts[of ks ls] assms
    by (simp add: comp_def case_prod_beta)
next
  case (ObjCol ks)
  then show ?thesis using groupby_label_counts[of ks ls] assms
    by (simp add: comp_def case_prod_beta)
qed

lemma label_complete_get:
  assumes "label_complete df"
  obtains ls where "map_of df ''label'' = Some (NumCol ls)" and "None \<notin> set ls"
    and "get_num df ''label'' = Inr ls"
  using assms
  by (auto simp: label_complete_def get_num_def get_col_def split: option.splits column.splits)

lemma wf_df_len:
  assumes "wf_df df" and "map_of df a = Some c"
  shows "col_len c = len_df df"
proof -
  have "(a, c) \<in> set df" using assms(2) by (rule map_of_SomeD)
  then show ?thesis using assms(1) unfolding wf_df_def by (metis snd_conv)
qed

lemma sum_list_mset_cong:
  fixes f :: "'a \<Rightarrow> nat"
  assumes "mset xs = mset ys"
  shows "sum_list (map f xs) = sum_list (map f ys)"
proof -
  have "sum_list (map f xs) = sum_mset (image_mset f (mset xs))"
    by (metis mset_map sum_mset_sum_list)
  also have "\<dots> = sum_mset (image_mset f (mset ys))" by (simp add: assms)
  also have "\<dots> = sum_list (map f ys)" by (metis mset_map sum_mset_sum_list)
  finally show ?thesis .
qed

lemma cat_table_unsorted_total:
  assumes "wf_df df" and "label_complete df" and "col \<in> set (map fst df)"
  shows "\<exists>us. cat_table_unsorted df col = Inr us \<and> sum_list (map c_total us) = len_df df"
proof -
  from assms(2) obtain ls where ls: "map_of df ''label'' = Some (NumCol ls)" "None \<notin> set ls"
    "get_num df ''label'' = Inr ls" by (rule label_complete_get)
  from assms(3) obtain c where c: "map_of df col = Some c"
    by (metis map_of_eq_None_iff not_None_eq set_map)
  have len: "length ls = len_df df" using wf_df_len[OF assms(1) ls(1)] by simp
  have clen: "col_len c = length ls" using wf_df_len[OF assms(1) c] len by simp
  let ?us = "map (cat_row_of (len_df df)) (groupby_agg False c ls)"
  have 1: "cat_table_unsorted df col = Inr ?us"
    by (simp add: cat_table_unsorted_def get_col_def c ls(3))
  have ct: "c_total (cat_row_of n g) = fst (snd g)" for n g
    by (cases g) simp
  have "map c_total ?us = map (\<lambda>g. fst (snd g)) (groupby_agg False c ls)"
    by (simp add: ct)
  then have "sum_list (map c_total ?us) = (\<Sum>g\<leftarrow>groupby_agg False c ls. fst (snd g))"
    by (simp only:)
  then have "sum_list (map c_total ?us) = length ls"
    using groupby_agg_counts[OF clen ls(2)] by (simp only:)
  then show ?thesis using 1 len by simp
qed

lemma list_all2_exists:
  assumes "\<forall>x \<in> set xs. \<exists>y. P x y"
  shows "\<exists>ys. list_all2 P xs ys"
  using assms
proof (induction xs)
  case Nil
  then show ?case by simp
next
  case (Cons x xs)
  then obtain y ys where "P x y" "list_all2 P xs ys" by auto
  then have "list_all2 P (x # xs) (y # ys)" by simp
  then show ?case by blast
qed

text \<open>
  Claim C4. For every categorical column the sheet processes (the columns of \<^verbatim>\<open>cat_cols\<close>
  that the frame has), the total counts of the rows of its table add up to the number of
  rows of the frame; missing values of the column form a group of their own. The total of a
  group counts the labels of the group, and the label column holds a value in every row.
\<close>

theorem categorical_totals_sum_to_row_count:
  assumes "wf_df df" and "label_complete df"
  shows "(\<exists>tables. sheet_categoricals df tables) \<and>
         (\<forall>tables. sheet_categoricals df tables \<longrightarrow>
            map fst tables = filter (\<lambda>c. c \<in> set (map fst df)) (map fst cat_cols)
          \<and> (\<forall>t \<in> set tables. sum_list (map c_total (snd t)) = len_df df))"
proof -
  define cols where "cols = filter (\<lambda>c. c \<in> set (map fst df)) (map fst cat_cols)"
  have present: "col \<in> set (map fst df)" if "col \<in> set cols" for col
    using that unfolding cols_def by simp
  have rel: "sheet_categoricals df tables
               = list_all2 (\<lambda>col t. fst t = col \<and> categorical_table df col (snd t)) cols tables"
    for tables unfolding sheet_categoricals_def cols_def ..
  have "\<exists>t. fst t = col \<and> categorical_table df col (snd t)" if "col \<in> set cols" for col
  proof -
    from cat_table_unsorted_total[OF assms present[OF that]] obtain us
      where us: "cat_table_unsorted df col = Inr us" by blast
    obtain rows where "sort_values_desc c_total us rows"
      using sort_values_desc_exists by blast
    then have "categorical_table df col rows" by (simp add: categorical_table_def us)
    then show ?thesis by (intro exI[of _ "(col, rows)"]) simp
  qed
  then have ex: "\<exists>tables. sheet_categoricals df tables"
    unfolding rel by (intro list_all2_exists) blast
  have all: "map fst tables = cols \<and> (\<forall>t \<in> set tables. sum_list (map c_total (snd t)) = len_df df)"
    if a: "sheet_categoricals df tables" for tables
  proof
    have l2: "list_all2 (\<lambda>col t. fst t = col \<and> categorical_table df col (snd t)) cols tables"
      using a unfolding rel .
    then have "list_all2 (\<lambda>col t. col = fst t) cols tables"
      by (rule list_all2_mono) auto
    then show "map fst tables = cols"
      by (induction rule: list_all2_induct) auto
    show "\<forall>t \<in> set tables. sum_list (map c_total (snd t)) = len_df df"
    proof
      fix t assume "t \<in> set tables"
      then obtain i where i: "i < length tables" "tables ! i = t" by (auto simp: in_set_conv_nth)
      define col where "col = cols ! i"
      have li: "i < length cols" using l2 i(1) by (simp add: list_all2_lengthD)
      have col: "col \<in> set cols" "fst t = col" "categorical_table df col (snd t)"
        using list_all2_nthD[OF l2 li] i(2) nth_mem[OF li] by (simp_all add: col_def)
      from cat_table_unsorted_total[OF assms present[OF col(1)]] obtain us
        where us: "cat_table_unsorted df col = Inr us" "sum_list (map c_total us) = len_df df"
        by blast
      from col(3) us(1) have "mset (snd t) = mset us"
        by (simp add: categorical_table_def sort_values_desc_def)
      then show "sum_list (map c_total (snd t)) = len_df df"
        using sum_list_mset_cong[of "snd t" us c_total] us(2) by simp
    qed
  qed
  from ex all show ?thesis unfolding cols_def by blast
qed

lemma example_cat_admissible: "sheet_categoricals example_cat_df example_cat_tables"
  by code_simp

theorem categorical_totals_sum_to_row_count_witness:
  "wf_df example_cat_df \<and> label_complete example_cat_df \<and>
   sheet_categoricals example_cat_df example_cat_tables \<and>
   map fst example_cat_tables = [''channel'', ''kyc_level''] \<and>
   map (\<lambda>t. sum_list (map c_total (snd t))) example_cat_tables = [4, 4] \<and>
   len_df example_cat_df = 4"
proof -
  have h1: "wf_df example_cat_df" by (simp add: wf_df_def example_cat_df_def)
  have h2: "label_complete example_cat_df" by (simp add: label_complete_def example_cat_df_def)
  have h3: "sheet_categoricals example_cat_df example_cat_tables"
    by (rule example_cat_admissible)
  have len: "len_df example_cat_df = 4" by (simp add: example_cat_df_def)
  from categorical_totals_sum_to_row_count[OF h1 h2] h3
  have c: "map fst example_cat_tables
             = filter (\<lambda>c. c \<in> set (map fst example_cat_df)) (map fst cat_cols)"
    "\<forall>t \<in> set example_cat_tables. sum_list (map c_total (snd t)) = len_df example_cat_df"
    by blast+
  have "map fst example_cat_tables = [''channel'', ''kyc_level'']"
    by (simp add: example_cat_tables_def)
  moreover have "map (\<lambda>t. sum_list (map c_total (snd t))) example_cat_tables
                   = map (\<lambda>t. 4) example_cat_tables"
    using c(2) len by (intro map_cong) simp_all
  then have "map (\<lambda>t. sum_list (map c_total (snd t))) example_cat_tables = [4, 4]"
    by (simp add: example_cat_tables_def)
  ultimately show ?thesis using h1 h2 h3 len by simp
qed

section \<open>The overview sheet\<close>

lemma two_counts_le: "a \<noteq> b \<Longrightarrow> count_list xs a + count_list xs b \<le> length xs"
  by (induction xs) auto

lemma two_counts_cover:
  assumes "a \<noteq> b" and "count_list xs a + count_list xs b = length xs"
  shows "set xs \<subseteq> {a, b}"
  using assms(2)
proof (induction xs)
  case Nil
  then show ?case by simp
next
  case (Cons x xs)
  have le: "count_list xs a + count_list xs b \<le> length xs" by (rule two_counts_le[OF assms(1)])
  show ?case
  proof (cases "x = a \<or> x = b")
    case True
    then have "count_list xs a + count_list xs b = length xs"
      using Cons.prems assms(1) by (auto split: if_splits)
    then show ?thesis using Cons.IH True by auto
  next
    case False
    then have "count_list xs a + count_list xs b = Suc (length xs)" using Cons.prems by auto
    then show ?thesis using le by simp
  qed
qed

lemma binary_labels_sum:
  assumes "set ls \<subseteq> {Some 1, Some 0}"
  shows "series_sum ls = of_nat (count_list ls (Some 1)) \<and> length (present ls) = length ls"
  using assms by (induction ls) (auto simp: series_sum_def)

lemma all_equal_selection:
  assumes "length cs = length ls" and "\<forall>c \<in> set cs. c = k"
  shows "map snd (filter (\<lambda>p. fst p = k) (zip cs ls)) = ls"
proof -
  have "filter (\<lambda>p. fst p = k) (zip cs ls) = zip cs ls"
    using assms(2) by (auto simp: filter_id_conv dest: set_zip_leftD)
  then show ?thesis using assms(1) by simp
qed

lemma remdups_constant: "n > 0 \<Longrightarrow> remdups (replicate n x) = [x]"
proof (induction n)
  case 0
  then show ?case by simp
next
  case (Suc n)
  then show ?case by (cases n) auto
qed

lemma group_keys_single:
  assumes "cs \<noteq> []" and "\<forall>c \<in> set cs. c = Some k"
  shows "group_keys True cs = [Some k]"
proof -
  have "present cs = replicate (length cs) k" using assms(2)
  proof (induction cs)
    case Nil
    then show ?case by simp
  next
    case (Cons c cs)
    then show ?case by (cases c) auto
  qed
  then have "remdups (present cs) = [k]" using assms(1) by (simp add: remdups_constant)
  then show ?thesis by (simp add: group_keys_def)
qed

lemma overview_label_mean:
  assumes "length ls = 10" and "count_list ls (Some 1) = 6" and "count_list ls (Some 0) = 4"
  shows "series_sum ls = 6" and "length (present ls) = 10" and "series_mean ls = Fin (6 / 10)"
proof -
  have "set ls \<subseteq> {Some 1, Some 0}"
    by (rule two_counts_cover) (simp_all add: assms)
  from binary_labels_sum[OF this] show sum: "series_sum ls = 6" and pres: "length (present ls) = 10"
    by (simp_all add: assms)
  have ne: "present ls \<noteq> []" using pres by auto
  show "series_mean ls = Fin (6 / 10)"
    using sum pres ne by (simp add: series_mean_def series_sum_def)
qed

lemma date_range_complete:
  assumes "col_nulls ts = 0"
  shows "\<exists>lo hi. date_range ts = Inr (lo, hi)"
proof (cases ts)
  case (NumCol vs)
  then show ?thesis by (simp add: Let_def)
next
  case (ObjCol vs)
  then have "None \<notin> set vs" using assms by (auto simp: count_nulls_def filter_empty_conv)
  then show ?thesis using ObjCol by (simp add: Let_def)
qed

lemma channels_text_strings:
  assumes "\<forall>c \<in> set cs. c = Some k"
  shows "\<exists>t. channels_text (ObjCol cs) = Inr t"
  using assms by auto

text \<open>
  Claim C9. In a frame of ten rows, six with label 1 and four with label 0, all on the
  channel \<^verbatim>\<open>web\<close>, that has the other columns the overview reads (a timestamp in every
  row, \<^verbatim>\<open>customer_id\<close>, \<^verbatim>\<open>sender_account_id\<close>, \<^verbatim>\<open>device_id\<close>, \<^verbatim>\<open>transaction_type\<close> and
  \<^verbatim>\<open>fraud_type\<close>), the overview is produced, and it prints the overall fraud rate as
  \<^verbatim>\<open>60.00%\<close> and its channel block has exactly one row: \<^verbatim>\<open>web\<close>, total 10, fraud count 6,
  fraud rate \<^verbatim>\<open>60.0%\<close>.
\<close>

theorem overview_fraud_rate_and_channel_row:
  assumes "map_of df ''label'' = Some (NumCol ls)"
    and "length ls = 10" and "count_list ls (Some 1) = 6" and "count_list ls (Some 0) = 4"
    and "map_of df ''channel'' = Some (ObjCol cs)"
    and "length cs = 10" and "\<forall>c \<in> set cs. c = Some ''web''"
    and "map_of df ''timestamp'' = Some ts" and "col_nulls ts = 0"
    and "map_of df ''customer_id'' = Some cu"
    and "map_of df ''sender_account_id'' = Some sa"
    and "map_of df ''device_id'' = Some dv"
    and "map_of df ''transaction_type'' = Some tt"
    and "map_of df ''fraud_type'' = Some ft"
  shows "(\<exists>out. sheet_overview df out)
       \<and> (\<forall>out. sheet_overview df out \<longrightarrow>
             map_of (o_metrics out) ''Overall Fraud Rate'' = Some ''60.00%''
           \<and> o_channels out = [[CStr ''web'', CInt 10, CNum (Fin 6), CStr ''60.0%'']])"
proof -
  note lm = overview_label_mean[OF assms(2,3,4)]
  have lab: "get_num df ''label'' = Inr ls" by (simp add: get_num_def get_col_def assms(1))
  from date_range_complete[OF assms(9)] obtain lo hi where dr: "date_range ts = Inr (lo, hi)"
    by blast
  from channels_text_strings[OF assms(7)] obtain chs where ct: "channels_text (ObjCol cs) = Inr chs"
    by blast
  obtain ms where ms: "overview_metrics df = Inr ms"
    and rate: "map_of ms ''Overall Fraud Rate'' = Some ''60.00%''"
    by (simp add: overview_metrics_def get_col_def assms(1,5,8,10,11,12,13) dr ct lm(3) fmt_simps
        del: channels_text.simps date_range.simps)
  obtain fts where fts: "fraud_type_unsorted df = Inr fts"
    by (simp add: fraud_type_unsorted_def get_col_def assms(14) lab)
  have cne: "cs \<noteq> []" using assms(6) by auto
  have keys: "group_keys True cs = [Some ''web'']" by (rule group_keys_single[OF cne assms(7)])
  have sel: "map snd (filter (\<lambda>p. fst p = Some ''web'') (zip cs ls)) = ls"
    by (rule all_equal_selection) (simp_all add: assms(2,6,7))
  have grp: "groupby_label True cs ls = [(Some ''web'', 10, 6, Fin (6 / 10))]"
    by (simp add: groupby_label_def keys sel lm)
  have ch: "channel_rows df = Inr [[CStr ''web'', CInt 10, CNum (Fin 6), CStr ''60.0%'']]"
    by (simp add: channel_rows_def get_col_def assms(5) lab grp round_nd_def fmt_simps)
  have blocks: "overview_blocks df
                  = Inr (ms, fts, [[CStr ''web'', CInt 10, CNum (Fin 6), CStr ''60.0%'']])"
    by (simp add: overview_blocks_def ms fts ch)
  from sort_values_desc_exists[of ft_count fts]
  obtain rows where rows: "sort_values_desc ft_count fts rows" by blast
  have "sheet_overview df \<lparr>o_metrics = ms, o_fraud_types = rows,
          o_channels = [[CStr ''web'', CInt 10, CNum (Fin 6), CStr ''60.0%'']]\<rparr>"
    by (simp add: sheet_overview_def blocks rows)
  then have 1: "\<exists>out. sheet_overview df out" by blast
  have 2: "map_of (o_metrics out) ''Overall Fraud Rate'' = Some ''60.00%''
           \<and> o_channels out = [[CStr ''web'', CInt 10, CNum (Fin 6), CStr ''60.0%'']]"
    if "sheet_overview df out" for out
    using that rate by (simp add: sheet_overview_def blocks)
  from 1 2 show ?thesis by blast
qed

text \<open>The overview of the example frame.\<close>

lemma example_overview_blocks:
  "overview_blocks example_overview_df
     = Inr (o_metrics example_overview,
            [\<lparr>ft_value = CStr ''ATO'', ft_count = 1, ft_pct_all = Fin 10, ft_fraud_rate = Fin 1\<rparr>,
             \<lparr>ft_value = CStr ''layering'', ft_count = 2, ft_pct_all = Fin 20, ft_fraud_rate = Fin 1\<rparr>,
             \<lparr>ft_value = CStr ''mule_ring'', ft_count = 3, ft_pct_all = Fin 30, ft_fraud_rate = Fin 1\<rparr>,
             \<lparr>ft_value = CStr ''normal'', ft_count = 4, ft_pct_all = Fin 40, ft_fraud_rate = Fin 0\<rparr>],
            o_channels example_overview)"
  by code_simp

lemma example_overview_sheet: "sheet_overview example_overview_df example_overview"
  unfolding sheet_overview_def example_overview_blocks
  by (simp add: sort_values_desc_def example_overview_def)

lemma example_overview_cells:
  "map ft_cells (o_fraud_types example_overview)
     = [[CStr ''normal'', CInt 4, CStr ''40.0%'', CStr ''0.0%''],
        [CStr ''mule_ring'', CInt 3, CStr ''30.0%'', CStr ''100.0%''],
        [CStr ''layering'', CInt 2, CStr ''20.0%'', CStr ''100.0%''],
        [CStr ''ATO'', CInt 1, CStr ''10.0%'', CStr ''100.0%'']]"
  by code_simp

theorem overview_fraud_rate_and_channel_row_witness:
  "sheet_overview example_overview_df example_overview
   \<and> map_of (o_metrics example_overview) ''Overall Fraud Rate'' = Some ''60.00%''
   \<and> o_channels example_overview = [[CStr ''web'', CInt 10, CNum (Fin 6), CStr ''60.0%'']]"
proof -
  let ?ls = "[Some 1, Some 0, Some 1, Some 1, Some 0, Some 1, Some 0, Some 1, Some 1, Some (0::real)]"
  let ?ts = "ObjCol [Some ''2024-01-03 10:15:00'', Some ''2024-01-01 09:00:00'',
                     Some ''2024-01-05 18:30:00'', Some ''2024-01-02 11:45:00'',
                     Some ''2024-01-09 08:05:00'', Some ''2024-01-04 23:59:59'',
                     Some ''2024-01-07 12:00:00'', Some ''2024-01-10 16:20:00'',
                     Some ''2024-01-06 07:10:00'', Some ''2024-01-08 14:40:00'']"
  have h1: "map_of example_overview_df ''label'' = Some (NumCol ?ls)"
    by (simp add: example_overview_df_def)
  have h2: "length ?ls = 10" and h3: "count_list ?ls (Some 1) = 6"
    and h4: "count_list ?ls (Some 0) = 4" by simp_all
  have h5: "map_of example_overview_df ''channel'' = Some (ObjCol (replicate 10 (Some ''web'')))"
    by (simp add: example_overview_df_def)
  have h6: "length (replicate 10 (Some ''web'')) = 10"
    and h7: "\<forall>c \<in> set (replicate 10 (Some ''web'')). c = Some ''web''" by simp_all
  have h8: "map_of example_overview_df ''timestamp'' = Some ?ts"
    by (simp add: example_overview_df_def)
  have h9: "col_nulls ?ts = 0" by (simp add: count_nulls_def)
  have h10: "\<exists>c. map_of example_overview_df ''customer_id'' = Some c"
    and h11: "\<exists>c. map_of example_overview_df ''sender_account_id'' = Some c"
    and h12: "\<exists>c. map_of example_overview_df ''device_id'' = Some c"
    and h13: "\<exists>c. map_of example_overview_df ''transaction_type'' = Some c"
    and h14: "\<exists>c. map_of example_overview_df ''fraud_type'' = Some c"
    by (simp_all add: example_overview_df_def)
  from h10 h11 h12 h13 h14
    overview_fraud_rate_and_channel_row[OF h1 h2 h3 h4 h5 h6 h7 h8 h9]
  have "\<forall>out. sheet_overview example_overview_df out \<longrightarrow>
             map_of (o_metrics out) ''Overall Fraud Rate'' = Some ''60.00%''
           \<and> o_channels out = [[CStr ''web'', CInt 10, CNum (Fin 6), CStr ''60.0%'']]"
    by blast
  then show ?thesis using example_overview_sheet by blast
qed

section \<open>Descriptive statistics of a column without values\<close>

lemma all_null_present: "\<forall>v \<in> set vs. v = None \<Longrightarrow> present vs = []"
  by (induction vs) auto

lemma all_null_count: "\<forall>v \<in> set vs. v = None \<Longrightarrow> count_nulls vs = length vs"
  by (induction vs) (auto simp: count_nulls_def)

lemma desc_row_all_null:
  assumes "\<forall>v \<in> set vs. v = None" and "vs \<noteq> []"
  shows "desc_row_of c vs =
     \<lparr>d_feature = c, d_count = 0, d_mean = NaN, d_std = NaN, d_min = NaN,
      d_p25 = NaN, d_p50 = NaN, d_p75 = NaN, d_p90 = NaN, d_p95 = NaN, d_p99 = NaN,
      d_max = NaN, d_null_count = length vs, d_null_pct = Fin 100\<rparr>"
proof -
  have p: "present vs = []" by (rule all_null_present[OF assms(1)])
  have n: "count_nulls vs = length vs" by (rule all_null_count[OF assms(1)])
  have l: "real (length vs) \<noteq> 0" using assms(2) by simp
  have "round_nd 2 100 = 100" by (simp add: round_nd_def rint_def)
  then have pct: "np_round 2 (np_times100 (np_div (Fin (real (length vs))) (Fin (real (length vs)))))
                   = Fin 100"
    using l by simp
  show ?thesis
    unfolding desc_row_of_def n pct
    by (simp add: p series_mean_def series_std_def series_min_def series_max_def
        series_quantile_def)
qed

lemma numeric_col_lookup:
  assumes "distinct (map fst df)" and "c \<in> set (select_numeric df)"
  shows "\<exists>vs. map_of df c = Some (NumCol vs)"
proof -
  from assms(2) obtain col where col: "(c, col) \<in> set df" "is_numeric col"
    by (auto simp: select_numeric_def)
  then obtain vs where "col = NumCol vs" by (cases col) auto
  then show ?thesis using col(1) assms(1) by (auto intro: map_of_is_SomeI)
qed

lemma desc_rows_total:
  assumes "\<forall>c \<in> set cs. \<exists>vs. map_of df c = Some (NumCol vs)"
  shows "\<exists>rows. desc_rows df cs = Inr rows \<and> map d_feature rows = cs \<and>
           (\<forall>r \<in> set rows. \<exists>vs. map_of df (d_feature r) = Some (NumCol vs)
                                  \<and> r = desc_row_of (d_feature r) vs)"
  using assms
proof (induction cs)
  case Nil
  then show ?case by simp
next
  case (Cons c cs)
  then obtain vs where vs: "map_of df c = Some (NumCol vs)" by auto
  from Cons obtain rest where rest: "desc_rows df cs = Inr rest" "map d_feature rest = cs"
    "\<forall>r \<in> set rest. \<exists>vs. map_of df (d_feature r) = Some (NumCol vs)
                                  \<and> r = desc_row_of (d_feature r) vs"
    by auto
  have g: "get_num df c = Inr vs" by (simp add: get_num_def get_col_def vs)
  have nm: "d_feature (desc_row_of c vs) = c" by (simp add: desc_row_of_def)
  show ?case using vs rest g nm by auto
qed

lemma filter_distinct_key:
  assumes "distinct (map f xs)" and "x \<in> set xs"
  shows "filter (\<lambda>y. f y = f x) xs = [x]"
  using assms
proof (induction xs)
  case Nil
  then show ?case by simp
next
  case (Cons a xs)
  show ?case
  proof (cases "a = x")
    case True
    then have "f x \<notin> f ` set xs" using Cons.prems(1) by simp
    then have "\<forall>y \<in> set xs. f y \<noteq> f x" by (metis image_eqI)
    then have "filter (\<lambda>y. f y = f x) xs = []" by (auto simp: filter_empty_conv)
    then show ?thesis using True by simp
  next
    case False
    then have "x \<in> set xs" using Cons.prems(2) by simp
    moreover have "f a \<noteq> f x" using Cons.prems(1) \<open>x \<in> set xs\<close> by auto
    ultimately show ?thesis using Cons by simp
  qed
qed

text \<open>
  Claim C8. When a numeric column (other than the two join keys) of a frame with at least
  one row has no value at all, the descriptive statistics are computed without an error and
  hold exactly one row for that column: non-null count 0, every statistic (mean, standard
  deviation, minimum, the six percentiles, maximum) not-a-number, the null count the number
  of rows and the null percentage 100.
\<close>

theorem all_null_numeric_column_row:
  assumes "distinct (map fst df)" and "(c, NumCol vs) \<in> set df"
    and "vs \<noteq> []" and "\<forall>v \<in> set vs. v = None"
    and "c \<noteq> ''account_id_x''" and "c \<noteq> ''account_id_y''"
  shows "\<exists>rows. sheet_desc_stats df = Inr rows
           \<and> filter (\<lambda>r. d_feature r = c) rows =
               [\<lparr>d_feature = c, d_count = 0, d_mean = NaN, d_std = NaN, d_min = NaN,
                 d_p25 = NaN, d_p50 = NaN, d_p75 = NaN, d_p90 = NaN, d_p95 = NaN, d_p99 = NaN,
                 d_max = NaN, d_null_count = length vs, d_null_pct = Fin 100\<rparr>]"
proof -
  let ?cols = "desc_numeric_cols df"
  have sel: "c \<in> set (select_numeric df)"
    using assms(2) by (force simp: select_numeric_def)
  then have cin: "c \<in> set ?cols" using assms(5,6) by (simp add: desc_numeric_cols_def)
  have "distinct (select_numeric df)"
    unfolding select_numeric_def using assms(1) by (simp add: distinct_map_filter)
  then have dist: "distinct ?cols" by (simp add: desc_numeric_cols_def)
  have "\<forall>c' \<in> set ?cols. \<exists>vs'. map_of df c' = Some (NumCol vs')"
    using numeric_col_lookup[OF assms(1)] by (simp add: desc_numeric_cols_def)
  from desc_rows_total[OF this] obtain rows where rows: "desc_rows df ?cols = Inr rows"
    "map d_feature rows = ?cols"
    "\<forall>r \<in> set rows. \<exists>vs. map_of df (d_feature r) = Some (NumCol vs)
                                  \<and> r = desc_row_of (d_feature r) vs"
    by blast
  have 1: "sheet_desc_stats df = Inr rows" using cin rows(1) by (auto simp: sheet_desc_stats_def)
  from cin rows(2) obtain r where r: "r \<in> set rows" "d_feature r = c"
    by (metis (no_types, lifting) image_iff set_map)
  from rows(3) r obtain ws where ws: "map_of df c = Some (NumCol ws)" "r = desc_row_of c ws"
    by blast
  have "map_of df c = Some (NumCol vs)" using assms(1,2) by (rule map_of_is_SomeI)
  then have "ws = vs" using ws(1) by simp
  then have req: "r = \<lparr>d_feature = c, d_count = 0, d_mean = NaN, d_std = NaN, d_min = NaN,
                 d_p25 = NaN, d_p50 = NaN, d_p75 = NaN, d_p90 = NaN, d_p95 = NaN, d_p99 = NaN,
                 d_max = NaN, d_null_count = length vs, d_null_pct = Fin 100\<rparr>"
    using ws(2) desc_row_all_null[OF assms(4,3)] by simp
  have "filter (\<lambda>y. d_feature y = d_feature r) rows = [r]"
    by (rule filter_distinct_key) (simp_all add: rows(2) dist r(1))
  then show ?thesis using 1 r(2) req by auto
qed

theorem all_null_numeric_column_row_witness:
  "\<exists>rows. sheet_desc_stats example_allnull_df = Inr rows
           \<and> filter (\<lambda>r. d_feature r = ''sender_in_degree_30d'') rows =
               [\<lparr>d_feature = ''sender_in_degree_30d'', d_count = 0, d_mean = NaN, d_std = NaN,
                 d_min = NaN, d_p25 = NaN, d_p50 = NaN, d_p75 = NaN, d_p90 = NaN, d_p95 = NaN,
                 d_p99 = NaN, d_max = NaN, d_null_count = 3, d_null_pct = Fin 100\<rparr>]"
proof -
  have l: "length [None, None, None :: real option] = 3" by simp
  have "\<exists>rows. sheet_desc_stats example_allnull_df = Inr rows
           \<and> filter (\<lambda>r. d_feature r = ''sender_in_degree_30d'') rows =
               [\<lparr>d_feature = ''sender_in_degree_30d'', d_count = 0, d_mean = NaN, d_std = NaN,
                 d_min = NaN, d_p25 = NaN, d_p50 = NaN, d_p75 = NaN, d_p90 = NaN, d_p95 = NaN,
                 d_p99 = NaN, d_max = NaN, d_null_count = length [None, None, None :: real option],
                 d_null_pct = Fin 100\<rparr>]"
    by (rule all_null_numeric_column_row) (simp_all add: example_allnull_df_def)
  then show ?thesis unfolding l .
qed

section \<open>The coefficient: range and columns without variance\<close>

lemma sum_squares_expand:
  fixes B C :: real
  shows "(\<Sum>p\<leftarrow>ps. (B * f p - C * g p)\<^sup>2)
           = B\<^sup>2 * (\<Sum>p\<leftarrow>ps. (f p)\<^sup>2) - 2 * B * C * (\<Sum>p\<leftarrow>ps. f p * g p)
             + C\<^sup>2 * (\<Sum>p\<leftarrow>ps. (g p)\<^sup>2)"
  by (induction ps) (simp_all add: algebra_simps power2_eq_square)

lemma sum_list_all_zero:
  fixes h :: "'a \<Rightarrow> real"
  shows "\<forall>p \<in> set ps. h p = 0 \<Longrightarrow> (\<Sum>p\<leftarrow>ps. h p) = 0"
  by (induction ps) auto

lemma sum_squares_zero:
  fixes g :: "'a \<Rightarrow> real"
  assumes "(\<Sum>p\<leftarrow>ps. (g p)\<^sup>2) = 0"
  shows "\<forall>p \<in> set ps. g p = 0"
  using assms
proof (induction ps)
  case Nil
  then show ?case by simp
next
  case (Cons a ps)
  have "0 \<le> (\<Sum>p\<leftarrow>ps. (g p)\<^sup>2)" by (rule sum_list_nonneg) auto
  moreover have "0 \<le> (g a)\<^sup>2" by simp
  moreover have "(g a)\<^sup>2 + (\<Sum>p\<leftarrow>ps. (g p)\<^sup>2) = 0" using Cons.prems by simp
  ultimately have "(g a)\<^sup>2 = 0" "(\<Sum>p\<leftarrow>ps. (g p)\<^sup>2) = 0" by linarith+
  then show ?case using Cons.IH by simp
qed

lemma cauchy_schwarz_list:
  fixes f g :: "'a \<Rightarrow> real"
  shows "(\<Sum>p\<leftarrow>ps. f p * g p)\<^sup>2 \<le> (\<Sum>p\<leftarrow>ps. (f p)\<^sup>2) * (\<Sum>p\<leftarrow>ps. (g p)\<^sup>2)"
proof -
  define A where "A = (\<Sum>p\<leftarrow>ps. (f p)\<^sup>2)"
  define B where "B = (\<Sum>p\<leftarrow>ps. (g p)\<^sup>2)"
  define C where "C = (\<Sum>p\<leftarrow>ps. f p * g p)"
  have B0: "0 \<le> B" unfolding B_def by (rule sum_list_nonneg) auto
  show ?thesis
  proof (cases "B = 0")
    case True
    then have "\<forall>p \<in> set ps. g p = 0" unfolding B_def by (rule sum_squares_zero)
    then have "\<forall>p \<in> set ps. f p * g p = 0" by simp
    then have "C = 0" unfolding C_def by (rule sum_list_all_zero)
    then show ?thesis using True unfolding A_def[symmetric] B_def[symmetric] C_def[symmetric]
      by simp
  next
    case False
    then have Bpos: "0 < B" using B0 by simp
    have "0 \<le> (\<Sum>p\<leftarrow>ps. (B * f p - C * g p)\<^sup>2)" by (rule sum_list_nonneg) auto
    also have "\<dots> = B\<^sup>2 * A - 2 * B * C * C + C\<^sup>2 * B"
      unfolding A_def B_def C_def by (rule sum_squares_expand)
    also have "\<dots> = B * (A * B - C\<^sup>2)" by (simp add: algebra_simps power2_eq_square)
    finally have "0 \<le> A * B - C\<^sup>2" using Bpos by (simp add: zero_le_mult_iff)
    then show ?thesis unfolding A_def[symmetric] B_def[symmetric] C_def[symmetric] by simp
  qed
qed

lemma pearson_range: "pearson ps = NaN \<or> (\<exists>x. pearson ps = Fin x \<and> \<bar>x\<bar> \<le> 1)"
proof (cases "ps = []")
  case True
  then show ?thesis by (simp add: pearson_def)
next
  case False
  define mx where "mx = sum_list (map fst ps) / of_nat (length ps)"
  define my where "my = sum_list (map snd ps) / of_nat (length ps)"
  define sxy where "sxy = (\<Sum>p\<leftarrow>ps. (fst p - mx) * (snd p - my))"
  define sxx where "sxx = (\<Sum>p\<leftarrow>ps. (fst p - mx)\<^sup>2)"
  define syy where "syy = (\<Sum>p\<leftarrow>ps. (snd p - my)\<^sup>2)"
  define d where "d = sqrt (sxx * syy)"
  have p: "pearson ps = (if d \<noteq> 0 then Fin (sxy / d) else NaN)"
    using False unfolding pearson_def Let_def mx_def my_def sxy_def sxx_def syy_def d_def by simp
  show ?thesis
  proof (cases "d = 0")
    case True
    then show ?thesis using p by simp
  next
    case nz: False
    have "sxy\<^sup>2 \<le> sxx * syy"
      unfolding sxy_def sxx_def syy_def by (rule cauchy_schwarz_list)
    then have "sqrt (sxy\<^sup>2) \<le> d" unfolding d_def by (rule real_sqrt_le_mono)
    then have le: "\<bar>sxy\<bar> \<le> d" by simp
    have "0 \<le> d" unfolding d_def using le \<open>sqrt (sxy\<^sup>2) \<le> d\<close> d_def by linarith
    then have dpos: "0 < d" using nz by simp
    have "\<bar>sxy / d\<bar> = \<bar>sxy\<bar> / d" using dpos by simp
    also have "\<dots> \<le> 1" using le dpos by simp
    finally show ?thesis using p nz by simp
  qed
qed

lemma constant_column_pearson:
  assumes "\<forall>p \<in> set ps. fst p = k"
  shows "pearson ps = NaN"
proof (cases "ps = []")
  case True
  then show ?thesis by (simp add: pearson_def)
next
  case False
  have "map fst ps = replicate (length ps) k"
    using assms by (simp add: map_replicate_const[symmetric] cong: map_cong)
  then have "sum_list (map fst ps) = of_nat (length ps) * k" by (simp add: sum_list_replicate)
  then have mx: "sum_list (map fst ps) / of_nat (length ps) = k" using False by simp
  have "\<forall>p \<in> set ps. (fst p - k)\<^sup>2 = 0" using assms by simp
  then have "(\<Sum>p\<leftarrow>ps. (fst p - k)\<^sup>2) = 0" by (rule sum_list_all_zero)
  then show ?thesis using False by (simp add: pearson_def Let_def mx)
qed

lemma complete_pairs_fst: "p \<in> set (complete_pairs xs ys) \<Longrightarrow> Some (fst p) \<in> set xs"
  unfolding complete_pairs_def by (auto dest: set_zip_leftD)

lemma zero_variance_pearson:
  assumes "zero_variance vs"
  shows "pearson (complete_pairs vs ls) = NaN"
proof (cases "complete_pairs vs ls = []")
  case True
  then show ?thesis by (simp add: pearson_def)
next
  case False
  then obtain q where q: "q \<in> set (complete_pairs vs ls)" by (cases "complete_pairs vs ls") auto
  have "\<forall>p \<in> set (complete_pairs vs ls). fst p = fst q"
  proof
    fix p assume "p \<in> set (complete_pairs vs ls)"
    then have "Some (fst p) \<in> set vs" "Some (fst q) \<in> set vs"
      using q by (auto dest: complete_pairs_fst)
    then show "fst p = fst q" using assms unfolding zero_variance_def by blast
  qed
  then show ?thesis by (rule constant_column_pearson)
qed

section \<open>The correlation table\<close>

lemma sort_values_abs_desc_exists:
  assumes "\<forall>e \<in> set xs. snd e = NaN \<or> (\<exists>x. snd e = Fin x)"
  shows "\<exists>ys. sort_values_abs_desc xs ys"
proof -
  define A where "A = rev (sort_key (\<lambda>e. abs_value (snd e)) (filter (\<lambda>e. \<not> np_isnan (snd e)) xs))"
  define B where "B = filter (\<lambda>e. np_isnan (snd e)) xs"
  let ?R = "\<lambda>a b. abs_desc_nan_last (snd a) (snd b)"
  have mA: "mset A = mset (filter (\<lambda>e. \<not> np_isnan (snd e)) xs)" by (simp add: A_def)
  have m: "mset (A @ B) = mset xs" unfolding mset_append mA B_def by simp
  have setA: "set A = {e \<in> set xs. \<not> np_isnan (snd e)}" by (auto simp: A_def)
  have finA: "\<exists>x. snd a = Fin x" if "a \<in> set A" for a
  proof -
    from that assms have "snd a = NaN \<or> (\<exists>x. snd a = Fin x)" "\<not> np_isnan (snd a)"
      by (auto simp: setA)
    then show ?thesis by auto
  qed
  have "sorted_wrt (\<lambda>a b. abs_value (snd a) \<ge> abs_value (snd b)) A"
    unfolding A_def
    using sorted_sort_key[of "\<lambda>e. abs_value (snd e)" "filter (\<lambda>e. \<not> np_isnan (snd e)) xs"]
    by (simp add: sorted_wrt_rev sorted_map)
  then have sA: "sorted_wrt ?R A"
  proof (rule sorted_wrt_mono_rel[rotated])
    fix a b assume ab: "a \<in> set A" "b \<in> set A" "abs_value (snd a) \<ge> abs_value (snd b)"
    from finA[OF ab(1)] finA[OF ab(2)] obtain x y where "snd a = Fin x" "snd b = Fin y" by blast
    then show "?R a b" using ab(3) by (simp add: abs_value_def)
  qed
  have sB: "sorted_wrt ?R B" unfolding B_def by (induction xs) auto
  have AB: "\<forall>a \<in> set A. \<forall>b \<in> set B. ?R a b" by (auto simp: B_def)
  have "sorted_wrt ?R (A @ B)" using sA sB AB by (simp add: sorted_wrt_append)
  then have "sort_values_abs_desc xs (A @ B)" using m by (simp add: sort_values_abs_desc_def)
  then show ?thesis by blast
qed

lemma corr_loop_total:
  assumes "\<forall>c \<in> set cols. \<exists>vs. map_of df c = Some (NumCol vs)"
  shows "\<exists>cs. corr_loop df ls cols = Inr cs \<and> map fst cs = cols"
  using assms
proof (induction cols)
  case Nil
  then show ?case by simp
next
  case (Cons c cols)
  then obtain vs where vs: "map_of df c = Some (NumCol vs)" by auto
  from Cons obtain rest where "corr_loop df ls cols = Inr rest" "map fst rest = cols" by auto
  then show ?case using vs by (simp add: get_num_def get_col_def)
qed

lemma corr_loop_entries:
  assumes "corr_loop df ls cols = Inr cs"
  shows "map fst cs = cols \<and>
         (\<forall>e \<in> set cs. \<exists>vs. get_num df (fst e) = Inr vs \<and> snd e = pearson (complete_pairs vs ls))"
  using assms
proof (induction cols arbitrary: cs)
  case Nil
  then show ?case by simp
next
  case (Cons c cols)
  from Cons.prems obtain vs rest where vs: "get_num df c = Inr vs"
    and rest: "corr_loop df ls cols = Inr rest"
    and cs: "cs = (c, pearson (complete_pairs vs ls)) # rest"
    by (auto split: sum.splits)
  from Cons.IH[OF rest] show ?case using vs cs by auto
qed

text \<open>What an admissible table is made of.\<close>

lemma sheet_correlations_rows:
  assumes "sheet_correlations dd df rows"
  obtains ls cs where "get_num df ''label'' = Inr ls"
    and "corr_loop df ls (corr_numeric_cols df) = Inr cs"
    and "mset (map (\<lambda>r. (r_feature r, r_pearson r)) rows) = mset cs"
    and "sorted_wrt (\<lambda>a b. abs_desc_nan_last (r_pearson a) (r_pearson b)) rows"
    and "\<forall>r \<in> set rows. r = corr_row_of dd (r_feature r, r_pearson r)"
proof -
  from assms obtain cs where cs: "corr_series df = Inr cs"
    and srt: "sort_values_abs_desc cs (map (\<lambda>r. (r_feature r, r_pearson r)) rows)"
    and eq: "rows = map (corr_row_of dd) (map (\<lambda>r. (r_feature r, r_pearson r)) rows)"
    by (auto simp: sheet_correlations_def split: sum.splits)
  from cs obtain ls where ls: "get_num df ''label'' = Inr ls"
    "corr_loop df ls (corr_numeric_cols df) = Inr cs"
    by (auto simp: corr_series_def split: sum.splits)
  have 3: "mset (map (\<lambda>r. (r_feature r, r_pearson r)) rows) = mset cs"
    using srt by (simp add: sort_values_abs_desc_def)
  have "sorted_wrt (\<lambda>a b. abs_desc_nan_last (snd a) (snd b)) (map (\<lambda>r. (r_feature r, r_pearson r)) rows)"
    using srt by (simp add: sort_values_abs_desc_def)
  then have 4: "sorted_wrt (\<lambda>a b. abs_desc_nan_last (r_pearson a) (r_pearson b)) rows"
    by (simp add: sorted_wrt_map)
  have 5: "\<forall>r \<in> set rows. r = corr_row_of dd (r_feature r, r_pearson r)"
  proof
    fix r assume "r \<in> set rows"
    then obtain i where i: "i < length rows" "rows ! i = r" by (auto simp: in_set_conv_nth)
    have "rows ! i = map (corr_row_of dd) (map (\<lambda>r. (r_feature r, r_pearson r)) rows) ! i"
      using eq by simp
    then show "r = corr_row_of dd (r_feature r, r_pearson r)" using i by simp
  qed
  from ls 3 4 5 show ?thesis by (rule that)
qed

lemma sheet_correlations_entry:
  assumes "sheet_correlations dd df rows" and "r \<in> set rows"
  shows "\<exists>ls vs. get_num df ''label'' = Inr ls \<and> get_num df (r_feature r) = Inr vs
           \<and> r_pearson r = pearson (complete_pairs vs ls)"
proof -
  from assms(1) obtain ls cs where ls: "get_num df ''label'' = Inr ls"
    and loop: "corr_loop df ls (corr_numeric_cols df) = Inr cs"
    and m: "mset (map (\<lambda>r. (r_feature r, r_pearson r)) rows) = mset cs"
    by (rule sheet_correlations_rows)
  have "(r_feature r, r_pearson r) \<in> set (map (\<lambda>r. (r_feature r, r_pearson r)) rows)"
    using assms(2) by auto
  then have "(r_feature r, r_pearson r) \<in> set cs" using m by (metis set_mset_mset)
  then show ?thesis using corr_loop_entries[OF loop] ls by fastforce
qed

lemma example_corr_series:
  "corr_series example_corr_df = Inr [(''flat'', NaN), (''mixed'', Fin 0), (''same'', Fin 1)]"
  by (simp add: corr_series_def corr_numeric_cols_def select_numeric_def example_corr_df_def
      get_num_def get_col_def complete_pairs_def pearson_def Let_def power2_eq_square)

lemma example_corr_admissible: "sheet_correlations Map.empty example_corr_df example_corr_rows"
  by (simp add: sheet_correlations_def example_corr_series sort_values_abs_desc_def
      example_corr_rows_def corr_row_of_def direction_def signal_strength_def dict_group_def
      add_mset_commute)

text \<open>
  Claim C6, as the code has it. In every correlation table the rows whose coefficient is
  defined come first, in non-increasing order of the absolute coefficient, and each of those
  coefficients has absolute value at most one; the rows whose coefficient is not-a-number
  (a column without variance, or no row with both values) follow at the end.
\<close>

theorem correlation_defined_rows_sorted_and_bounded:
  assumes "sheet_correlations dd df rows"
  shows "sorted_wrt (\<lambda>a b. np_isnan (r_abs b) \<or> (\<exists>x y. r_abs a = Fin x \<and> r_abs b = Fin y \<and> x \<ge> y)) rows
       \<and> (\<forall>r \<in> set rows. (r_pearson r = NaN \<and> r_abs r = NaN)
                          \<or> (\<exists>x. r_pearson r = Fin x \<and> \<bar>x\<bar> \<le> 1 \<and> r_abs r = Fin \<bar>x\<bar>))"
proof -
  from assms obtain ls cs where
    srt: "sorted_wrt (\<lambda>a b. abs_desc_nan_last (r_pearson a) (r_pearson b)) rows"
    and eq: "\<forall>r \<in> set rows. r = corr_row_of dd (r_feature r, r_pearson r)"
    by (rule sheet_correlations_rows)
  have ab: "r_abs r = np_abs (r_pearson r)" if "r \<in> set rows" for r
  proof -
    have "r_abs (corr_row_of dd (r_feature r, r_pearson r)) = np_abs (r_pearson r)"
      by (simp add: corr_row_of_def)
    then show ?thesis using eq that by metis
  qed
  have rng: "(r_pearson r = NaN \<and> r_abs r = NaN)
           \<or> (\<exists>x. r_pearson r = Fin x \<and> \<bar>x\<bar> \<le> 1 \<and> r_abs r = Fin \<bar>x\<bar>)" if "r \<in> set rows" for r
  proof -
    from sheet_correlations_entry[OF assms that] obtain ps where "r_pearson r = pearson ps"
      by blast
    then have "r_pearson r = NaN \<or> (\<exists>x. r_pearson r = Fin x \<and> \<bar>x\<bar> \<le> 1)"
      using pearson_range[of ps] by simp
    then show ?thesis using ab[OF that] by auto
  qed
  have "sorted_wrt (\<lambda>a b. np_isnan (r_abs b) \<or> (\<exists>x y. r_abs a = Fin x \<and> r_abs b = Fin y \<and> x \<ge> y)) rows"
    using srt
  proof (rule sorted_wrt_mono_rel[rotated])
    fix a b assume h: "a \<in> set rows" "b \<in> set rows" "abs_desc_nan_last (r_pearson a) (r_pearson b)"
    show "np_isnan (r_abs b) \<or> (\<exists>x y. r_abs a = Fin x \<and> r_abs b = Fin y \<and> x \<ge> y)"
      using rng[OF h(1)] rng[OF h(2)] h(3) by auto
  qed
  then show ?thesis using rng by blast
qed

theorem correlation_defined_rows_sorted_and_bounded_witness:
  "sheet_correlations Map.empty example_corr_df example_corr_rows
   \<and> sorted_wrt (\<lambda>a b. np_isnan (r_abs b) \<or> (\<exists>x y. r_abs a = Fin x \<and> r_abs b = Fin y \<and> x \<ge> y))
        example_corr_rows
   \<and> map r_abs example_corr_rows = [Fin 1, Fin 0, NaN]"
proof -
  have h: "sheet_correlations Map.empty example_corr_df example_corr_rows"
    by (rule example_corr_admissible)
  from correlation_defined_rows_sorted_and_bounded[OF h]
  have "sorted_wrt (\<lambda>a b. np_isnan (r_abs b) \<or> (\<exists>x y. r_abs a = Fin x \<and> r_abs b = Fin y \<and> x \<ge> y))
          example_corr_rows" by blast
  moreover have "map r_abs example_corr_rows = [Fin 1, Fin 0, NaN]"
    by (simp add: example_corr_rows_def)
  ultimately show ?thesis using h by simp
qed

text \<open>
  The table of the example frame has a row whose coefficient is not-a-number: not every
  coefficient is a number of absolute value at most one.
\<close>

theorem correlation_table_has_unbounded_coefficient:
  "sheet_correlations Map.empty example_corr_df example_corr_rows
   \<and> \<not> list_all coefficient_bounded example_corr_rows"
  using example_corr_admissible
  by (simp add: example_corr_rows_def coefficient_bounded_def)

text \<open>
  Claim C10. A feature whose coefficient is exactly zero gets the negative direction
  label: the positive label is given to the strictly positive coefficients only.
\<close>

theorem zero_correlation_labelled_negative:
  assumes "sheet_correlations dd df rows"
  shows "\<forall>r \<in> set rows.
           (r_pearson r = Fin 0 \<longrightarrow> r_direction r = negative_direction)
         \<and> (r_direction r = positive_direction \<longleftrightarrow> (\<exists>x. r_pearson r = Fin x \<and> x > 0))"
proof
  fix r assume r: "r \<in> set rows"
  from assms obtain ls cs where
    eq: "\<forall>r \<in> set rows. r = corr_row_of dd (r_feature r, r_pearson r)"
    by (rule sheet_correlations_rows)
  have "r_direction (corr_row_of dd (r_feature r, r_pearson r)) = direction (r_pearson r)"
    by (simp add: corr_row_of_def)
  then have d: "r_direction r = direction (r_pearson r)" using eq r by metis
  from sheet_correlations_entry[OF assms r] obtain ps where "r_pearson r = pearson ps" by blast
  then have rng: "r_pearson r = NaN \<or> (\<exists>x. r_pearson r = Fin x)"
    using pearson_range[of ps] by auto
  have ne: "positive_direction \<noteq> negative_direction"
    by (simp add: positive_direction_def negative_direction_def)
  show "(r_pearson r = Fin 0 \<longrightarrow> r_direction r = negative_direction)
      \<and> (r_direction r = positive_direction \<longleftrightarrow> (\<exists>x. r_pearson r = Fin x \<and> x > 0))"
    using d rng ne by (auto simp: direction_def)
qed

theorem zero_correlation_labelled_negative_witness:
  "sheet_correlations Map.empty example_corr_df example_corr_rows
   \<and> r_feature (example_corr_rows ! 1) = ''mixed''
   \<and> r_pearson (example_corr_rows ! 1) = Fin 0
   \<and> r_direction (example_corr_rows ! 1) = negative_direction"
proof -
  have h: "sheet_correlations Map.empty example_corr_df example_corr_rows"
    by (rule example_corr_admissible)
  have m: "example_corr_rows ! 1 \<in> set example_corr_rows" by (simp add: example_corr_rows_def)
  have p: "r_pearson (example_corr_rows ! 1) = Fin 0" by (simp add: example_corr_rows_def)
  have f: "r_feature (example_corr_rows ! 1) = ''mixed''" by (simp add: example_corr_rows_def)
  from zero_correlation_labelled_negative[OF h] m p
  have "r_direction (example_corr_rows ! 1) = negative_direction" by blast
  then show ?thesis using h p f by simp
qed

lemma corr_row_of_key [simp]:
  "(r_feature (corr_row_of dd e), r_pearson (corr_row_of dd e)) = e"
  by (simp add: corr_row_of_def)

text \<open>
  Claim C2, as the code has it. The correlation table has one row for every numeric column
  other than the label and the two join keys; nothing is dropped. A column without variance
  has a row too, with a coefficient that is not-a-number, and the rows without a coefficient
  stand after all the others. Some table is always produced.
\<close>

theorem zero_variance_column_kept_as_nan_row:
  assumes "distinct (map fst df)" and "map_of df ''label'' = Some (NumCol ls)"
  shows "(\<exists>rows. sheet_correlations dd df rows)
       \<and> (\<forall>rows. sheet_correlations dd df rows \<longrightarrow>
             mset (map r_feature rows) = mset (corr_numeric_cols df)
           \<and> (\<forall>r \<in> set rows. \<forall>vs. map_of df (r_feature r) = Some (NumCol vs) \<and> zero_variance vs
                                  \<longrightarrow> r_pearson r = NaN)
           \<and> sorted_wrt (\<lambda>a b. np_isnan (r_pearson a) \<longrightarrow> np_isnan (r_pearson b)) rows)"
proof (intro conjI allI impI)
  have lab: "get_num df ''label'' = Inr ls" by (simp add: get_num_def get_col_def assms(2))
  have "\<forall>c \<in> set (corr_numeric_cols df). \<exists>vs. map_of df c = Some (NumCol vs)"
    using numeric_col_lookup[OF assms(1)] by (simp add: corr_numeric_cols_def)
  from corr_loop_total[OF this, of ls] obtain cs
    where cs: "corr_loop df ls (corr_numeric_cols df) = Inr cs" by blast
  have ser: "corr_series df = Inr cs" by (simp add: corr_series_def lab cs)
  have "\<forall>e \<in> set cs. snd e = NaN \<or> (\<exists>x. snd e = Fin x)"
  proof
    fix e assume "e \<in> set cs"
    then obtain ps where "snd e = pearson ps" using corr_loop_entries[OF cs] by blast
    then show "snd e = NaN \<or> (\<exists>x. snd e = Fin x)" using pearson_range[of ps] by auto
  qed
  from sort_values_abs_desc_exists[OF this] obtain ys where ys: "sort_values_abs_desc cs ys"
    by blast
  have "map (\<lambda>r. (r_feature r, r_pearson r)) (map (corr_row_of dd) ys) = ys"
    by (simp add: comp_def)
  then have "sheet_correlations dd df (map (corr_row_of dd) ys)"
    using ys by (simp add: sheet_correlations_def ser)
  then show "\<exists>rows. sheet_correlations dd df rows" by blast
next
  fix rows assume a: "sheet_correlations dd df rows"
  from a obtain ls' cs where ls': "get_num df ''label'' = Inr ls'"
    and loop: "corr_loop df ls' (corr_numeric_cols df) = Inr cs"
    and m: "mset (map (\<lambda>r. (r_feature r, r_pearson r)) rows) = mset cs"
    and srt: "sorted_wrt (\<lambda>a b. abs_desc_nan_last (r_pearson a) (r_pearson b)) rows"
    by (rule sheet_correlations_rows)
  have e1: "mset (map fst (map (\<lambda>r. (r_feature r, r_pearson r)) rows)) = mset (map fst cs)"
    using m by (metis mset_map)
  have e2: "map fst (map (\<lambda>r. (r_feature r, r_pearson r)) rows) = map r_feature rows"
    by (simp add: comp_def)
  have e3: "map fst cs = corr_numeric_cols df" using corr_loop_entries[OF loop] by blast
  show "mset (map r_feature rows) = mset (corr_numeric_cols df)"
    using e1 unfolding e2 e3 .
  show "\<forall>r \<in> set rows. \<forall>vs. map_of df (r_feature r) = Some (NumCol vs) \<and> zero_variance vs
                                  \<longrightarrow> r_pearson r = NaN"
  proof (intro ballI allI impI)
    fix r vs assume r: "r \<in> set rows"
      and h: "map_of df (r_feature r) = Some (NumCol vs) \<and> zero_variance vs"
    from sheet_correlations_entry[OF a r] obtain l2 ws where
      e: "get_num df (r_feature r) = Inr ws" "r_pearson r = pearson (complete_pairs ws l2)"
      by blast
    have "ws = vs" using e(1) h by (simp add: get_num_def get_col_def)
    then show "r_pearson r = NaN" using e(2) h zero_variance_pearson by simp
  qed
  show "sorted_wrt (\<lambda>a b. np_isnan (r_pearson a) \<longrightarrow> np_isnan (r_pearson b)) rows"
    using srt by (rule sorted_wrt_mono_rel[rotated]) auto
qed

theorem zero_variance_column_kept_as_nan_row_witness:
  "sheet_correlations Map.empty example_corr_df example_corr_rows
   \<and> mset (map r_feature example_corr_rows) = mset (corr_numeric_cols example_corr_df)
   \<and> sorted_wrt (\<lambda>a b. np_isnan (r_pearson a) \<longrightarrow> np_isnan (r_pearson b)) example_corr_rows"
proof -
  have h: "sheet_correlations Map.empty example_corr_df example_corr_rows"
    by (rule example_corr_admissible)
  have d: "distinct (map fst example_corr_df)" by (simp add: example_corr_df_def)
  have l: "map_of example_corr_df ''label'' = Some (NumCol [Some 0, Some 0, Some 1, Some 1])"
    by (simp add: example_corr_df_def)
  from zero_variance_column_kept_as_nan_row[OF d l, of Map.empty] h show ?thesis by blast
qed

text \<open>
  The constant column of the example frame is in the table, in a row whose coefficient is
  not-a-number.
\<close>

theorem zero_variance_column_in_correlation_table:
  "sheet_correlations Map.empty example_corr_df example_corr_rows
   \<and> map_of example_corr_df ''flat'' = Some (NumCol [Some 5, Some 5, Some 5, Some 5])
   \<and> zero_variance [Some 5, Some 5, Some 5, Some 5]
   \<and> r_feature (example_corr_rows ! 2) = ''flat''
   \<and> r_pearson (example_corr_rows ! 2) = NaN"
  using example_corr_admissible
  by (simp add: example_corr_rows_def example_corr_df_def zero_variance_def)

section \<open>Ratios against a zero baseline\<close>

text \<open>
  The graph sheet does test the divisor, and the lift of the rule sheet is printed as
  \<^verbatim>\<open>N/A\<close>; here the tested ratio is not-a-number and is printed as \<^verbatim>\<open>nanx\<close>.
\<close>

lemma graph_ratio_on_zero_baseline:
  "graph_ratio_cell [Some 0, Some 2, Some 0, Some 1, Some 3, Some 1]
                    [Some 0, Some 1, Some 1, Some 1, Some 1, Some 1] = Some ''nanx''"
  by (simp add: graph_ratio_cell_def graph_ratio_def loc_eq_def series_mean_def)

lemma ratio_cell_zero_baseline:
  assumes "series_mean normal = Fin 0" and "series_mean sub = Fin m" and "m > 0"
  shows "ratio_cell sub normal = CStr ''infx''"
  using assms by (simp add: ratio_cell_def)

lemma ratio_cell_undefined_on_zero_baseline:
  assumes "series_mean normal = Fin 0"
  shows "ratio_cell sub normal \<in> {CStr ''infx'', CStr ''-infx'', CStr ''nanx''}"
proof (cases "present sub = []")
  case True
  then show ?thesis by (simp add: ratio_cell_def series_mean_def)
next
  case False
  then obtain m where "series_mean sub = Fin m" by (simp add: series_mean_def Let_def)
  then show ?thesis using assms by (simp add: ratio_cell_def)
qed

lemma mask_mule: "type_mask (ObjCol [Some ''normal'', Some ''mule_ring'', Some ''layering'',
                              Some ''smurfing'', Some ''ATO'', Some ''identity_fraud'']) ''mule_ring''
     = [False, True, False, False, False, False]"
  by simp

lemma mask_normal: "type_mask (ObjCol [Some ''normal'', Some ''mule_ring'', Some ''layering'',
                              Some ''smurfing'', Some ''ATO'', Some ''identity_fraud'']) ''normal''
     = [True, False, False, False, False, False]"
  by simp

lemma masked_mule: "masked [False, True, False, False, False, False] [a, b, c, d, e, f] = [b]"
  by (simp add: masked_def)

lemma masked_normal: "masked [True, False, False, False, False, False] [a, b, c, d, e, f] = [a]"
  by (simp add: masked_def)

lemma mean_single: "series_mean [Some x] = Fin x"
  by (simp add: series_mean_def)

lemma median_single: "series_median [Some x] = Fin x"
  by (simp add: series_median_def series_quantile_def)

lemma mode_single: "mode0 [Some x] = Inr x"
  by (simp add: mode0_def)

lemma types_df_fraud_type: "get_col example_types_df ''fraud_type'' = Inr (ObjCol [Some ''normal'', Some ''mule_ring'', Some ''layering'', Some ''smurfing'', Some ''ATO'', Some ''identity_fraud''])"
  by (simp add: get_num_def get_col_def example_types_df_def)

lemma types_df_amount: "get_num example_types_df ''amount'' = Inr ([Some 100, Some 250, Some 900, Some 95, Some 4000, Some 300])"
  by (simp add: get_num_def get_col_def example_types_df_def)

lemma types_df_is_night: "get_num example_types_df ''is_night'' = Inr ([Some 0, Some 1, Some 1, Some 0, Some 1, Some 0])"
  by (simp add: get_num_def get_col_def example_types_df_def)

lemma types_df_devices_per_account: "get_num example_types_df ''devices_per_account'' = Inr ([Some 0, Some 2, Some 0, Some 1, Some 3, Some 1])"
  by (simp add: get_num_def get_col_def example_types_df_def)

lemma types_df_accounts_per_device: "get_num example_types_df ''accounts_per_device'' = Inr ([Some 1, Some 4, Some 1, Some 1, Some 2, Some 1])"
  by (simp add: get_num_def get_col_def example_types_df_def)

lemma types_df_sender_out_degree_30d: "get_num example_types_df ''sender_out_degree_30d'' = Inr ([Some 2, Some 9, Some 5, Some 3, Some 1, Some 2])"
  by (simp add: get_num_def get_col_def example_types_df_def)

lemma types_df_shared_device_fraud_count: "get_num example_types_df ''shared_device_fraud_count'' = Inr ([Some 0, Some 3, Some 0, Some 0, Some 1, Some 0])"
  by (simp add: get_num_def get_col_def example_types_df_def)

lemma types_df_channel: "get_col example_types_df ''channel'' = Inr (ObjCol [Some ''branch'', Some ''mobile'', Some ''web'', Some ''atm'', Some ''web'', Some ''mobile''])"
  by (simp add: get_num_def get_col_def example_types_df_def)

lemma types_df_transaction_type: "get_col example_types_df ''transaction_type'' = Inr (ObjCol [Some ''cash_deposit'', Some ''UPI'', Some ''RTGS'', Some ''cash_deposit'', Some ''RTGS'', Some ''UPI''])"
  by (simp add: get_num_def get_col_def example_types_df_def)

lemmas types_df_lookups = types_df_fraud_type types_df_amount types_df_is_night types_df_devices_per_account types_df_accounts_per_device types_df_sender_out_degree_30d types_df_shared_device_fraud_count types_df_channel types_df_transaction_type

text \<open>
  Claim C7 says that the fraud-type sheet leaves a ratio out when the baseline of the
  legitimate transactions is zero. The code divides without a test: on the example frame,
  where the legitimate mean of \<^verbatim>\<open>devices_per_account\<close> is 0, the ratio cell of the type
  \<^verbatim>\<open>mule_ring\<close> is the text \<^verbatim>\<open>infx\<close>.
\<close>

theorem fraud_type_ratio_on_zero_baseline:
  "key_metrics example_types_df ''mule_ring'' =
     Inr [[CStr ''Transaction Count'', CInt 1, CInt 1, CStr ''''],
          [CStr ''Average Amount'', CStr ''250.00'', CStr ''100.00'', CStr ''2.50x''],
          [CStr ''Median Amount'', CStr ''250.00'', CStr ''100.00'', CStr ''''],
          [CStr ''Night Txn Rate'', CStr ''100.0%'', CStr ''0.0%'', CStr ''''],
          [CStr ''Avg devices_per_account'', CStr ''2.00'', CStr ''0.00'', CStr ''infx''],
          [CStr ''Avg accounts_per_device'', CStr ''4.00'', CStr ''1.00'', CStr ''4.00x''],
          [CStr ''Avg sender_out_degree_30d'', CStr ''9.00'', CStr ''2.00'', CStr ''''],
          [CStr ''Avg shared_device_fraud_count'', CStr ''3.00'', CStr ''0.00'', CStr ''''],
          [CStr ''Top Channel'', CStr ''mobile'', CStr ''branch'', CStr ''''],
          [CStr ''Top Transaction Type'', CStr ''UPI'', CStr ''cash_deposit'', CStr '''']]"
  unfolding key_metrics_def types_df_lookups Let_def mask_mule mask_normal
  by (simp add: masked_mule masked_normal mean_single median_single mode_single
      mean_cell_def ratio_cell_def fmt_fixed_def rint_def nat_digits.simps digit_char_def
      zero_pad_def)

end
